theory Spec2Isabelle
  imports Complex_Main "HOL-Library.Monad_Syntax" "HOL-Library.Log_Nat"
begin

section \<open>Messages\<close>

text \<open>
  The ROS messages that \<^verbatim>\<open>grasp_utilities.py\<close> builds and reads, with the fields the
  module touches. The value of a float field is a real. The float arithmetic of \<^verbatim>\<open>getPose\<close>
  is rounded to doubles, as described with it; the other float arithmetic of the module
  (the quality of a grasp, the sizes and centres of the boxes) is over the reals.
  A field keeps its message name unless the name is taken (\<open>id\<close>) or shared between two
  messages, in which case it carries a prefix.
\<close>

record Point =
  p_x :: real
  p_y :: real
  p_z :: real

record Quaternion =
  q_x :: real
  q_y :: real
  q_z :: real
  q_w :: real

record Pose =
  position :: Point
  orientation :: Quaternion

record Header =
  stamp :: real
  frame_id :: string

record PoseStamped =
  header :: Header
  pose :: Pose

text \<open>Of a \<^verbatim>\<open>chess_msgs/ChessPiece\<close> the module reads the header and the pose only.\<close>

type_synonym ChessPiece = PoseStamped

record JointState =
  js_name :: "string list"
  js_position :: "real list"
  js_velocity :: "real list"
  js_effort :: "real list"

record GripperTranslation =
  direction_vector_x :: real
  direction_frame_id :: string
  min_distance :: real
  desired_distance :: real

text \<open>
  A candidate holds its pose by reference in Python. The record is polymorphic in the
  pose field: \<open>PoseStamped Grasp\<close> is a candidate by value, \<open>ref Grasp\<close> one that points
  into a store.
\<close>

record 'p Grasp =
  grasp_id :: string
  pre_grasp_posture :: JointState
  grasp_posture :: JointState
  grasp_pose :: 'p
  grasp_quality :: real
  grasp_approach :: GripperTranslation
  grasp_retreat :: GripperTranslation

record 'p PlaceLocation =
  place_id :: string
  place_pose :: 'p
  place_approach :: GripperTranslation
  place_retreat :: GripperTranslation
  post_place_posture :: JointState

record PickupGoal =
  pick_target_name :: string
  pick_group_name :: string
  pick_end_effector :: string
  possible_grasps :: "PoseStamped Grasp list"
  pick_support_surface_name :: string
  pick_allow_gripper_support_collision :: bool
  attached_object_touch_links :: "string list"
  pick_allowed_planning_time :: real
  pick_plan_only :: bool

record PlaceGoal =
  place_group_name :: string
  attached_object_name :: string
  place_locations :: "PoseStamped PlaceLocation list"
  place_support_surface_name :: string
  place_allow_gripper_support_collision :: bool
  place_allowed_planning_time :: real
  place_plan_only :: bool

record JointConstraint =
  joint_name :: string
  jc_position :: real
  tolerance_above :: real
  tolerance_below :: real
  weight :: real

record MoveGroupGoal =
  goal_constraints :: "JointConstraint list list"
  mg_group_name :: string
  num_planning_attempts :: int
  mg_allowed_planning_time :: real
  mg_plan_only :: bool
  look_around :: bool
  replan :: bool

datatype PrimitiveType = BOX | SPHERE | CYLINDER | CONE

record SolidPrimitive =
  primitive_type :: PrimitiveType
  dimensions :: "real list"

datatype Operation = ADD | REMOVE | APPEND | MOVE

record CollisionObject =
  co_header :: Header
  co_id :: string
  primitives :: "SolidPrimitive list"
  primitive_poses :: "Pose list"
  operation :: Operation

record AttachedCollisionObject =
  object :: CollisionObject

record PlanningScene =
  world_collision_objects :: "CollisionObject list"
  attached_collision_objects :: "AttachedCollisionObject list"

section \<open>Module constants\<close>

definition GRIPPER_FRAME :: string where
  "GRIPPER_FRAME = ''gripper_link''"

definition FIXED_FRAME :: string where
  "FIXED_FRAME = ''base_link''"

definition PLAN_ONLY :: bool where
  "PLAN_ONLY = False"

definition GRIPPER_CLOSED :: real where
  "GRIPPER_CLOSED = 0.01"

definition GRIPPER_OPEN :: real where
  "GRIPPER_OPEN = 0.05"

definition joint_names :: "string list" where
  "joint_names = [''arm_lift_joint'', ''arm_shoulder_pan_joint'', ''arm_upperarm_roll_joint'',
     ''arm_shoulder_lift_joint'', ''arm_elbow_flex_joint'', ''arm_wrist_flex_joint'',
     ''arm_wrist_roll_joint'']"

definition joints_tucked :: "real list" where
  "joints_tucked = [0, -1.57, 0, -1.7, 1.7, 1.57, -0.066472500808377785]"

definition joints_untucked :: "real list" where
  "joints_untucked = [0, 0, 0, -1.57, 1.57, 1.57, -0.066472500808377785]"

text \<open>
  \<^verbatim>\<open>SQUARE_SIZE\<close> and \<^verbatim>\<open>castling_extras\<close> are imported from \<^verbatim>\<open>chess_utilities\<close>,
  which is not among the sources: they are parameters of the model.
\<close>

record chess_utilities =
  SQUARE_SIZE :: real
  castling_extras :: "string \<rightharpoonup> string"

section \<open>Python's text of numbers\<close>

fun str_nat :: "nat \<Rightarrow> string" where
  "str_nat n = (if n < 10 then [''0123456789'' ! n]
                else str_nat (n div 10) @ [''0123456789'' ! (n mod 10)])"

declare str_nat.simps [simp del]

definition str_int :: "int \<Rightarrow> string" where
  "str_int i = (if i < 0 then ''-'' @ str_nat (nat (- i)) else str_nat (nat i))"

fun frac_digits :: "nat \<Rightarrow> real \<Rightarrow> string" where
  "frac_digits 0 v = []"
| "frac_digits (Suc n) v =
     (if v = 0 then []
      else (''0123456789'' ! nat \<lfloor>v * 10\<rfloor>) # frac_digits n (v * 10 - of_int \<lfloor>v * 10\<rfloor>))"

text \<open>
  \<open>str\<close> of a float: sign, integer part, point, decimals, \<open>.0\<close> when there are none.
  It agrees with Python on the floats written with a few decimals and no exponent,
  which are the only ones the module prints.
\<close>

definition str_float :: "real \<Rightarrow> string" where
  "str_float v =
     (let a = \<bar>v\<bar>; n = \<lfloor>a\<rfloor>; ds = frac_digits 12 (a - of_int n)
      in (if v < 0 then ''-'' else '''') @ str_nat (nat n) @ ''.'' @ (if ds = [] then ''0'' else ds))"

section \<open>Candidate generators\<close>

definition getGripperPosture :: "real \<Rightarrow> JointState" where
  "getGripperPosture p =
     \<lparr>js_name = [''l_gripper_joint'', ''r_gripper_joint''], js_position = [p, p],
      js_velocity = [0, 0], js_effort = [1, 1]\<rparr>"

definition getGripperTranslation :: "real \<Rightarrow> real \<Rightarrow> real \<Rightarrow> GripperTranslation" where
  "getGripperTranslation min_dist desired axis =
     \<lparr>direction_vector_x = axis, direction_frame_id = GRIPPER_FRAME,
      min_distance = min_dist, desired_distance = desired\<rparr>"

text \<open>
  \<^verbatim>\<open>quaternion_from_euler\<close> belongs to the \<^verbatim>\<open>tf\<close> library. The generators take it as
  the parameter \<open>qfe\<close>; \<open>tf_quaternion_from_euler\<close> is the library's formula for its
  default axes (static x, y, z) over the reals, used where a concrete function is needed.
\<close>

type_synonym euler_fun = "real \<Rightarrow> real \<Rightarrow> real \<Rightarrow> Quaternion"

definition tf_quaternion_from_euler :: euler_fun where
  "tf_quaternion_from_euler ai aj ak =
     (let ci = cos (ai / 2); si = sin (ai / 2);
          cj = cos (aj / 2); sj = sin (aj / 2);
          ck = cos (ak / 2); sk = sin (ak / 2);
          cc = ci * ck; cs = ci * sk; sc = si * ck; ss = si * sk
      in \<lparr>q_x = cj * sc - sj * cs, q_y = cj * ss + sj * cc,
          q_z = cj * cs - sj * sc, q_w = cj * cc + sj * ss\<rparr>)"

definition set_orientation :: "Quaternion \<Rightarrow> PoseStamped \<Rightarrow> PoseStamped" where
  "set_orientation q ps = ps\<lparr>pose := (pose ps)\<lparr>orientation := q\<rparr>\<rparr>"

definition pitches :: "real list" where
  "pitches = [0.05, 0.1, 0.2, 0.4]"

definition yaws :: "real list" where
  "yaws = [-1.57, -0.78, 0, 0.78, 1.57]"

text \<open>
  \<open>getGrasps\<close> and \<open>getPlaceLocations\<close> give the candidates as a consumer meets them when
  it uses each one before asking for the next (what \<open>pickup\<close> and \<open>place\<close> do): the
  value of the yielded object at each \<^verbatim>\<open>yield\<close>, in order.
\<close>

definition getGrasps :: "euler_fun \<Rightarrow> PoseStamped \<Rightarrow> PoseStamped Grasp list" where
  "getGrasps qfe pose_stamped =
     (let g = \<lparr>grasp_id = ''direct_overhead'',
               pre_grasp_posture = getGripperPosture GRIPPER_OPEN,
               grasp_posture = getGripperPosture GRIPPER_CLOSED,
               grasp_pose = set_orientation (qfe 0 1.57 0) pose_stamped,
               grasp_quality = 1,
               grasp_approach = getGripperTranslation 0.05 0.15 1,
               grasp_retreat = getGripperTranslation 0.05 0.15 (-1)\<rparr>
      in g # concat (map (\<lambda>p. map (\<lambda>y.
             g\<lparr>grasp_pose := set_orientation (qfe 0 (1.57 - p) y) pose_stamped,
               grasp_id := str_float p @ ''+'' @ str_float y,
               grasp_quality := 1 - (1.25 * p) - \<bar>y\<bar> / 4\<rparr>) yaws) pitches))"

definition getPlaceLocations :: "euler_fun \<Rightarrow> PoseStamped \<Rightarrow> PoseStamped PlaceLocation list" where
  "getPlaceLocations qfe pose_stamped =
     (let l = \<lparr>place_id = ''direct_overhead'',
               place_pose = set_orientation (qfe 0 1.57 0) pose_stamped,
               place_approach = getGripperTranslation 0.05 0.15 1,
               place_retreat = getGripperTranslation 0.05 0.15 (-1),
               post_place_posture = getGripperPosture GRIPPER_OPEN\<rparr>
      in l # concat (map (\<lambda>p. map (\<lambda>y.
             l\<lparr>place_pose := set_orientation (qfe 0 (1.57 - p) y) pose_stamped,
               place_id := str_float p @ ''+'' @ str_float y\<rparr>) yaws) pitches))"

section \<open>Pose of a square\<close>

datatype Side = WHITE | BLACK

text \<open>
  The board is an object of \<^verbatim>\<open>chess_utilities\<close>; the module calls \<^verbatim>\<open>toPosition\<close> and
  \<^verbatim>\<open>getPiece\<close> and reads \<^verbatim>\<open>side\<close>.
\<close>

record Board =
  toPosition :: "string \<Rightarrow> int \<times> int"
  getPiece :: "int \<Rightarrow> int \<Rightarrow> ChessPiece option"
  side :: Side

text \<open>
  \<^verbatim>\<open>getPose\<close> computes with Python floats, which are IEEE 754 binary64 numbers. The
  model keeps the value of a float as a real and rounds the exact result of every
  operation to the nearest double, ties to the even significand: 53 significant bits,
  least exponent \<open>-1074\<close>. Python raises \<^verbatim>\<open>OverflowError\<close> or gives an infinity
  for a result beyond the largest double; the model has no such value, so what is proved
  about the size of a result is stated for operands far below that range.
\<close>

definition round_half_even :: "real \<Rightarrow> int" where
  "round_half_even v =
     (if v - of_int \<lfloor>v\<rfloor> < 1 / 2 then \<lfloor>v\<rfloor>
      else if 1 / 2 < v - of_int \<lfloor>v\<rfloor> then \<lfloor>v\<rfloor> + 1
      else if even \<lfloor>v\<rfloor> then \<lfloor>v\<rfloor> else \<lfloor>v\<rfloor> + 1)"

text \<open>
  The binary exponent of a positive real \<open>a\<close>, the integer \<open>k\<close> with \<open>2 ^ k \<le> a < 2 ^ (k + 1)\<close>,
  computed from the bit length of an integer.
\<close>

definition ilog2 :: "real \<Rightarrow> int" where
  "ilog2 a = (if 1 \<le> a then bitlen \<lfloor>a\<rfloor> - 1 else - bitlen (\<lceil>1 / a\<rceil> - 1))"

definition double_round :: "real \<Rightarrow> real" where
  "double_round v =
     (if v = 0 then 0
      else sgn v * of_int (round_half_even (\<bar>v\<bar> / 2 powi max (ilog2 \<bar>v\<bar> - 52) (- 1074)))
             * 2 powi max (ilog2 \<bar>v\<bar> - 52) (- 1074))"

text \<open>
  The operations that \<^verbatim>\<open>getPose\<close> uses: the conversion of an \<^verbatim>\<open>int\<close> operand,
  \<^verbatim>\<open>*\<close>, \<^verbatim>\<open>+\<close> and \<^verbatim>\<open>/\<close>. The only divisor in \<^verbatim>\<open>getPose\<close> is the literal \<^verbatim>\<open>2\<close>, so
  the \<^verbatim>\<open>ZeroDivisionError\<close> of \<^verbatim>\<open>/\<close> has no branch.
\<close>

definition float_of_int :: "int \<Rightarrow> real" where
  "float_of_int i = double_round (of_int i)"

definition float_mul :: "real \<Rightarrow> real \<Rightarrow> real" where
  "float_mul x y = double_round (x * y)"

definition float_add :: "real \<Rightarrow> real \<Rightarrow> real" where
  "float_add x y = double_round (x + y)"

definition float_div :: "real \<Rightarrow> real \<Rightarrow> real" where
  "float_div x y = double_round (x / y)"

text \<open>
  \<^verbatim>\<open>col\<close> and \<^verbatim>\<open>rank\<close> are Python integers, so \<^verbatim>\<open>rank-1\<close>, \<^verbatim>\<open>7-col\<close> and \<^verbatim>\<open>8-rank\<close> are
  exact; \<^verbatim>\<open>SQUARE_SIZE\<close> is a float. \<^verbatim>\<open>z\<close> is stored as it is given.
\<close>

definition getPose :: "chess_utilities \<Rightarrow> int \<Rightarrow> int \<Rightarrow> Board \<Rightarrow> real \<Rightarrow> Pose" where
  "getPose cu col rank board z =
     (if side board = WHITE
      then \<lparr>position = \<lparr>p_x = float_add (float_mul (float_of_int col) (SQUARE_SIZE cu))
                                          (float_div (SQUARE_SIZE cu) (float_of_int 2)),
                         p_y = float_add (float_mul (float_of_int (rank - 1)) (SQUARE_SIZE cu))
                                          (float_div (SQUARE_SIZE cu) (float_of_int 2)),
                         p_z = z\<rparr>,
            orientation = \<lparr>q_x = 0, q_y = 0, q_z = 0, q_w = 0\<rparr>\<rparr>
      else \<lparr>position = \<lparr>p_x = float_add (float_mul (float_of_int (7 - col)) (SQUARE_SIZE cu))
                                          (float_div (SQUARE_SIZE cu) (float_of_int 2)),
                         p_y = float_add (float_mul (float_of_int (8 - rank)) (SQUARE_SIZE cu))
                                          (float_div (SQUARE_SIZE cu) (float_of_int 2)),
                         p_z = z\<rparr>,
            orientation = \<lparr>q_x = 0, q_y = 0, q_z = 0, q_w = 0\<rparr>\<rparr>)"

section \<open>The node's state and its surroundings\<close>

text \<open>
  Everything outside the process (the planning scene, the action servers, the transform
  tree, the clock) is a state of type \<open>'w\<close> that only the functions of the record
  \<open>env\<close> read and change. An action field stands for \<^verbatim>\<open>send_goal\<close>,
  \<^verbatim>\<open>wait_for_result\<close> and \<^verbatim>\<open>get_result().error_code.val\<close> together; the servers
  are taken to answer every goal. \<open>scene_feed\<close> hands over the planning-scene messages
  that the subscriber thread has passed to \<^verbatim>\<open>sceneCb\<close> since the caller last held
  the mutex.
\<close>

record 'w env =
  quaternion_from_euler :: euler_fun
  time_now :: "'w \<Rightarrow> real"
  sleep :: "real \<Rightarrow> 'w \<Rightarrow> 'w"
  publish :: "CollisionObject \<Rightarrow> 'w \<Rightarrow> 'w"
  scene_feed :: "'w \<Rightarrow> PlanningScene list \<times> 'w"
  transformPose :: "string \<Rightarrow> PoseStamped \<Rightarrow> 'w \<Rightarrow> PoseStamped"
  pickup_action :: "PickupGoal \<Rightarrow> 'w \<Rightarrow> int \<times> 'w"
  place_action :: "PlaceGoal \<Rightarrow> 'w \<Rightarrow> int \<times> 'w"
  move_group_action :: "MoveGroupGoal \<Rightarrow> 'w \<Rightarrow> int \<times> 'w"

datatype LogLevel = DEBUG | INFO | ERROR

text \<open>
  The state the process owns: \<^verbatim>\<open>ArmPlanner.success\<close>, the two lists of the
  \<^verbatim>\<open>ObjectManager\<close>, and the lines written with \<^verbatim>\<open>rospy.log*\<close>, oldest first.
\<close>

record 'w node =
  success :: bool
  collision :: "string list"
  attached :: "string list"
  rosout :: "(LogLevel \<times> string) list"
  world :: 'w

definition rospy_log :: "LogLevel \<Rightarrow> string \<Rightarrow> 'w node \<Rightarrow> 'w node" where
  "rospy_log lvl msg s = s\<lparr>rosout := rosout s @ [(lvl, msg)]\<rparr>"

definition rospy_sleep :: "'w env \<Rightarrow> real \<Rightarrow> 'w node \<Rightarrow> 'w node" where
  "rospy_sleep E d s = s\<lparr>world := sleep E d (world s)\<rparr>"

definition pub_publish :: "'w env \<Rightarrow> CollisionObject \<Rightarrow> 'w node \<Rightarrow> 'w node" where
  "pub_publish E ob s = s\<lparr>world := publish E ob (world s)\<rparr>"

section \<open>ObjectManager\<close>

definition quoted :: "string \<Rightarrow> string" where
  "quoted n = [CHR 0x22] @ n @ [CHR 0x22]"

text \<open>
  One round of the first loop of \<^verbatim>\<open>sceneCb\<close>, with its \<^verbatim>\<open>try\<close>:
  \<^verbatim>\<open>list.remove\<close> deletes the first occurrence and raises \<^verbatim>\<open>ValueError\<close> when there
  is none, which the handler swallows before the log line is reached.
\<close>

definition scene_event :: "CollisionObject \<Rightarrow> 'w node \<Rightarrow> 'w node" where
  "scene_event ob s =
     (if operation ob = ADD then
        rospy_log DEBUG (''ObjectManager: Added Collision Object '' @ quoted (co_id ob))
          (s\<lparr>collision := collision s @ [co_id ob]\<rparr>)
      else if operation ob = REMOVE then
        (if co_id ob \<in> set (collision s) then
           rospy_log DEBUG (''ObjectManager: Removed Collision Object '' @ quoted (co_id ob))
             (s\<lparr>collision := remove1 (co_id ob) (collision s)\<rparr>)
         else s)
      else s)"

definition attached_event :: "AttachedCollisionObject \<Rightarrow> 'w node \<Rightarrow> 'w node" where
  "attached_event ob s =
     (rospy_log DEBUG
        (''ObjectManager: attached collision objects includes '' @ quoted (co_id (object ob))) s)
     \<lparr>attached := attached s @ [co_id (object ob)]\<rparr>"

definition sceneCb :: "PlanningScene \<Rightarrow> 'w node \<Rightarrow> 'w node" where
  "sceneCb msg s =
     fold attached_event (attached_collision_objects msg)
       ((fold scene_event (world_collision_objects msg) s)\<lparr>attached := []\<rparr>)"

definition getKnownCollisionObjects :: "'w node \<Rightarrow> string list" where
  "getKnownCollisionObjects s = collision s"

definition getKnownAttachedObjects :: "'w node \<Rightarrow> string list" where
  "getKnownAttachedObjects s = attached s"

text \<open>
  \<^verbatim>\<open>sceneCb\<close> holds the mutex from its first line to its last, and so does each query,
  so a query sees the lists between two callbacks. \<open>deliver\<close> runs the callbacks that
  came in before the caller's next query.
\<close>

definition deliver :: "'w env \<Rightarrow> 'w node \<Rightarrow> 'w node" where
  "deliver E s = fold sceneCb (fst (scene_feed E (world s))) (s\<lparr>world := snd (scene_feed E (world s))\<rparr>)"

text \<open>The two polling loops. Neither has a bound: a run that never leaves is \<open>None\<close>.\<close>

partial_function (option) wait_removed :: "'w env \<Rightarrow> CollisionObject \<Rightarrow> 'w node \<Rightarrow> 'w node option" where
  "wait_removed E ob s =
     (if co_id ob \<in> set (getKnownCollisionObjects (deliver E s))
      then wait_removed E ob
             (rospy_sleep E 1 (pub_publish E ob
                (rospy_log DEBUG ''Waiting for object to remove'' (deliver E s))))
      else Some (deliver E s))"

partial_function (option) wait_added :: "'w env \<Rightarrow> CollisionObject \<Rightarrow> 'w node \<Rightarrow> 'w node option" where
  "wait_added E ob s =
     (if \<not> co_id ob \<in> set (getKnownCollisionObjects (deliver E s))
      then wait_added E ob
             (rospy_sleep E 1 (pub_publish E ob
                (rospy_log DEBUG ''Waiting for object to add'' (deliver E s))))
      else Some (deliver E s))"

definition remove :: "'w env \<Rightarrow> string \<Rightarrow> string \<Rightarrow> 'w node \<Rightarrow> 'w node option" where
  "remove E fixed_frame name s =
     (let ob = \<lparr>co_header = \<lparr>stamp = time_now E (world s), frame_id = fixed_frame\<rparr>,
                co_id = name, primitives = [], primitive_poses = [], operation = REMOVE\<rparr>
      in wait_removed E ob (pub_publish E ob s))"

definition addBox :: "'w env \<Rightarrow> string \<Rightarrow> string \<Rightarrow> real \<Rightarrow> real \<Rightarrow> real \<Rightarrow> real \<Rightarrow> real \<Rightarrow> real
    \<Rightarrow> 'w node \<Rightarrow> 'w node option" where
  "addBox E fixed_frame name size_x size_y size_z x y z s =
     (let ob = \<lparr>co_header = \<lparr>stamp = time_now E (world s), frame_id = fixed_frame\<rparr>,
                co_id = name,
                primitives = [\<lparr>primitive_type = BOX, dimensions = [size_x, size_y, size_z]\<rparr>],
                primitive_poses = [\<lparr>position = \<lparr>p_x = x, p_y = y, p_z = z\<rparr>,
                                    orientation = \<lparr>q_x = 0, q_y = 0, q_z = 0, q_w = 1\<rparr>\<rparr>],
                operation = ADD\<rparr>
      in wait_added E ob (pub_publish E ob s))"

definition addCube :: "'w env \<Rightarrow> string \<Rightarrow> string \<Rightarrow> real \<Rightarrow> real \<Rightarrow> real \<Rightarrow> real
    \<Rightarrow> 'w node \<Rightarrow> 'w node option" where
  "addCube E fixed_frame name sz x y z s = addBox E fixed_frame name sz sz sz x y z s"

text \<open>What one round of the first loop of \<^verbatim>\<open>sceneCb\<close> does to the list \<^verbatim>\<open>_collision\<close>.\<close>

definition list_event :: "CollisionObject \<Rightarrow> string list \<Rightarrow> string list" where
  "list_event ob xs =
     (if operation ob = ADD then xs @ [co_id ob]
      else if operation ob = REMOVE then remove1 (co_id ob) xs
      else xs)"

text \<open>The identifiers of the candidates after the first, in the order of the two loops.\<close>

definition tilted_ids :: "string list" where
  "tilted_ids = concat (map (\<lambda>p. map (\<lambda>y. str_float p @ ''+'' @ str_float y) yaws) pitches)"

section \<open>PickupManager and PlaceManager\<close>

text \<open>The fields \<^verbatim>\<open>_group\<close> and \<^verbatim>\<open>_effector\<close> of either manager.\<close>

record Manager =
  m_group :: string
  m_effector :: string

text \<open>The goal that one round of the loop of \<^verbatim>\<open>pickup\<close> fills in.\<close>

definition pickup_goal :: "Manager \<Rightarrow> string \<Rightarrow> PoseStamped Grasp \<Rightarrow> PickupGoal" where
  "pickup_goal self name grasp =
     \<lparr>pick_target_name = name, pick_group_name = m_group self,
      pick_end_effector = m_effector self, possible_grasps = [grasp],
      pick_support_surface_name = ''table'', pick_allow_gripper_support_collision = True,
      attached_object_touch_links = [], pick_allowed_planning_time = 30,
      pick_plan_only = PLAN_ONLY\<rparr>"

fun pickup_loop :: "'w env \<Rightarrow> Manager \<Rightarrow> string \<Rightarrow> int \<Rightarrow> PoseStamped Grasp list \<Rightarrow> 'w node
    \<Rightarrow> bool \<times> 'w node" where
  "pickup_loop E self name i [] s = (False, s)"
| "pickup_loop E self name i (grasp # rest) s =
     (let r = pickup_action E (pickup_goal self name grasp) (world s);
          s1 = s\<lparr>world := snd r\<rparr>
      in if fst r = 1 then (True, rospy_log INFO ''Pick succeeded'' s1)
         else pickup_loop E self name (i + 1) rest
                (rospy_log INFO (''Failed Pick attempt '' @ str_int i) s1))"

definition pickup :: "'w env \<Rightarrow> Manager \<Rightarrow> string \<Rightarrow> PoseStamped \<Rightarrow> 'w node \<Rightarrow> bool \<times> 'w node" where
  "pickup E self name pose_stamped s =
     pickup_loop E self name 1 (getGrasps (quaternion_from_euler E) pose_stamped) s"

definition place_goal :: "Manager \<Rightarrow> string \<Rightarrow> PoseStamped PlaceLocation \<Rightarrow> PlaceGoal" where
  "place_goal self name location =
     \<lparr>place_group_name = m_group self, attached_object_name = name,
      place_locations = [location], place_support_surface_name = ''table'',
      place_allow_gripper_support_collision = True, place_allowed_planning_time = 30,
      place_plan_only = PLAN_ONLY\<rparr>"

fun place_loop :: "'w env \<Rightarrow> Manager \<Rightarrow> string \<Rightarrow> int \<Rightarrow> PoseStamped PlaceLocation list \<Rightarrow> 'w node
    \<Rightarrow> bool \<times> 'w node" where
  "place_loop E self name i [] s = (False, s)"
| "place_loop E self name i (location # rest) s =
     (let r = place_action E (place_goal self name location) (world s);
          s1 = s\<lparr>world := snd r\<rparr>
      in if fst r = 1 then (True, rospy_log INFO ''Place succeeded'' s1)
         else place_loop E self name (i + 1) rest
                (rospy_log INFO (''Failed place attempt '' @ str_int i) s1))"

definition place :: "'w env \<Rightarrow> Manager \<Rightarrow> string \<Rightarrow> PoseStamped \<Rightarrow> 'w node \<Rightarrow> bool \<times> 'w node" where
  "place E self name pose_stamped s =
     place_loop E self name 1 (getPlaceLocations (quaternion_from_euler E) pose_stamped) s"

subsection \<open>Stub actions\<close>

text \<open>
  A stub action is any function from a goal and its own state to a status code and a new
  state. \<open>recording\<close> puts a stub behind a recorder that appends every goal it is sent;
  \<open>replies\<close> are the status codes a stub gives when it is sent a list of goals one
  after the other.
\<close>

definition recording :: "('g \<Rightarrow> 'w \<Rightarrow> int \<times> 'w) \<Rightarrow> 'g \<Rightarrow> 'w \<times> 'g list \<Rightarrow> int \<times> ('w \<times> 'g list)" where
  "recording act g ws = (fst (act g (fst ws)), (snd (act g (fst ws)), snd ws @ [g]))"

fun replies :: "('g \<Rightarrow> 'w \<Rightarrow> int \<times> 'w) \<Rightarrow> 'g list \<Rightarrow> 'w \<Rightarrow> int list" where
  "replies act [] w = []"
| "replies act (g # gs) w = fst (act g w) # replies act gs (snd (act g w))"

text \<open>
  The goals in generator order, one per candidate, and the goals a run has sent to a
  recorded stub.
\<close>

definition pickup_goals :: "'w env \<Rightarrow> Manager \<Rightarrow> string \<Rightarrow> PoseStamped \<Rightarrow> PickupGoal list" where
  "pickup_goals E self name pose_stamped =
     map (pickup_goal self name) (getGrasps (quaternion_from_euler E) pose_stamped)"

definition place_goals :: "'w env \<Rightarrow> Manager \<Rightarrow> string \<Rightarrow> PoseStamped \<Rightarrow> PlaceGoal list" where
  "place_goals E self name pose_stamped =
     map (place_goal self name) (getPlaceLocations (quaternion_from_euler E) pose_stamped)"

definition goals_sent :: "bool \<times> ('w \<times> 'g list) node \<Rightarrow> 'g list" where
  "goals_sent r = snd (world (snd r))"

section \<open>The generators as Python runs them\<close>

text \<open>
  In Python \<^verbatim>\<open>pose_stamped\<close> is a reference to the caller's object, the assignment
  \<^verbatim>\<open>g.grasp_pose = pose_stamped\<close> copies that reference, and every \<^verbatim>\<open>yield g\<close> hands out
  the one candidate object of the generator's frame. The store maps references to pose
  objects. A frame holds the argument, the candidate object once it exists, and the
  number of yields so far; a candidate that a consumer keeps is the frame's \<open>gen_g\<close>.
\<close>

type_synonym ref = nat

type_synonym store = "ref \<Rightarrow> PoseStamped"

record grasp_frame =
  gen_arg :: ref
  gen_g :: "ref Grasp option"
  gen_yields :: nat

record place_frame =
  pgen_arg :: ref
  pgen_l :: "ref PlaceLocation option"
  pgen_yields :: nat

text \<open>Calling a generator function runs none of its body.\<close>

definition getGrasps_call :: "ref \<Rightarrow> grasp_frame" where
  "getGrasps_call pose_stamped = \<lparr>gen_arg = pose_stamped, gen_g = None, gen_yields = 0\<rparr>"

definition getPlaceLocations_call :: "ref \<Rightarrow> place_frame" where
  "getPlaceLocations_call pose_stamped = \<lparr>pgen_arg = pose_stamped, pgen_l = None, pgen_yields = 0\<rparr>"

text \<open>
  \<open>next\<close> on a frame: it runs the body up to the next \<^verbatim>\<open>yield\<close> and gives the yielded
  candidate, or \<open>None\<close> for \<^verbatim>\<open>StopIteration\<close>. The pairs of the two nested loops, in
  the order the loops meet them, are \<open>List.product pitches yaws\<close>.
\<close>

definition grasp_next :: "euler_fun \<Rightarrow> grasp_frame \<Rightarrow> store \<Rightarrow> ref Grasp option \<times> grasp_frame \<times> store" where
  "grasp_next qfe fr h =
     (case gen_g fr of
        None \<Rightarrow>
          (let g = \<lparr>grasp_id = ''direct_overhead'',
                    pre_grasp_posture = getGripperPosture GRIPPER_OPEN,
                    grasp_posture = getGripperPosture GRIPPER_CLOSED,
                    grasp_pose = gen_arg fr,
                    grasp_quality = 1,
                    grasp_approach = getGripperTranslation 0.05 0.15 1,
                    grasp_retreat = getGripperTranslation 0.05 0.15 (-1)\<rparr>
           in (Some g, fr\<lparr>gen_g := Some g, gen_yields := 1\<rparr>,
               h(gen_arg fr := set_orientation (qfe 0 1.57 0) (h (gen_arg fr)))))
      | Some g \<Rightarrow>
          if gen_yields fr \<le> length (List.product pitches yaws) then
            (let p = fst (List.product pitches yaws ! (gen_yields fr - 1));
                 y = snd (List.product pitches yaws ! (gen_yields fr - 1));
                 g' = g\<lparr>grasp_id := str_float p @ ''+'' @ str_float y,
                        grasp_quality := 1 - (1.25 * p) - \<bar>y\<bar> / 4\<rparr>
             in (Some g', fr\<lparr>gen_g := Some g', gen_yields := gen_yields fr + 1\<rparr>,
                 h(grasp_pose g := set_orientation (qfe 0 (1.57 - p) y) (h (grasp_pose g)))))
          else (None, fr, h))"

definition place_next :: "euler_fun \<Rightarrow> place_frame \<Rightarrow> store
    \<Rightarrow> ref PlaceLocation option \<times> place_frame \<times> store" where
  "place_next qfe fr h =
     (case pgen_l fr of
        None \<Rightarrow>
          (let l = \<lparr>place_id = ''direct_overhead'',
                    place_pose = pgen_arg fr,
                    place_approach = getGripperTranslation 0.05 0.15 1,
                    place_retreat = getGripperTranslation 0.05 0.15 (-1),
                    post_place_posture = getGripperPosture GRIPPER_OPEN\<rparr>
           in (Some l, fr\<lparr>pgen_l := Some l, pgen_yields := 1\<rparr>,
               h(pgen_arg fr := set_orientation (qfe 0 1.57 0) (h (pgen_arg fr)))))
      | Some l \<Rightarrow>
          if pgen_yields fr \<le> length (List.product pitches yaws) then
            (let p = fst (List.product pitches yaws ! (pgen_yields fr - 1));
                 y = snd (List.product pitches yaws ! (pgen_yields fr - 1));
                 l' = l\<lparr>place_id := str_float p @ ''+'' @ str_float y\<rparr>
             in (Some l', fr\<lparr>pgen_l := Some l', pgen_yields := pgen_yields fr + 1\<rparr>,
                 h(place_pose l := set_orientation (qfe 0 (1.57 - p) y) (h (place_pose l)))))
          else (None, fr, h))"

text \<open>What a reader of a candidate sees: the candidate with its pose looked up in the store.\<close>

definition read_grasp :: "store \<Rightarrow> ref Grasp \<Rightarrow> PoseStamped Grasp" where
  "read_grasp h g =
     \<lparr>grasp_id = grasp_id g, pre_grasp_posture = pre_grasp_posture g,
      grasp_posture = grasp_posture g, grasp_pose = h (grasp_pose g),
      grasp_quality = grasp_quality g, grasp_approach = grasp_approach g,
      grasp_retreat = grasp_retreat g\<rparr>"

definition read_place :: "store \<Rightarrow> ref PlaceLocation \<Rightarrow> PoseStamped PlaceLocation" where
  "read_place h l =
     \<lparr>place_id = place_id l, place_pose = h (place_pose l),
      place_approach = place_approach l, place_retreat = place_retreat l,
      post_place_posture = post_place_posture l\<rparr>"

text \<open>
  A \<^verbatim>\<open>for\<close> loop over a generator that reads each candidate in its round, as the loops
  of \<^verbatim>\<open>pickup\<close> and \<^verbatim>\<open>place\<close> do when they send the goal: the candidates read, and the
  store at the end.
\<close>

function for_grasps :: "euler_fun \<Rightarrow> grasp_frame \<Rightarrow> store \<Rightarrow> PoseStamped Grasp list \<times> store" where
  "for_grasps qfe fr h =
     (case grasp_next qfe fr h of
        (None, fr', h') \<Rightarrow> ([], h')
      | (Some g, fr', h') \<Rightarrow>
          (read_grasp h' g # fst (for_grasps qfe fr' h'), snd (for_grasps qfe fr' h')))"
  by pat_completeness auto
termination
  by (relation "measure (\<lambda>(qfe, fr, h). if gen_g fr = None then length (List.product pitches yaws) + 2
        else Suc (length (List.product pitches yaws)) - gen_yields fr)")
     (auto simp: grasp_next_def Let_def split: option.splits if_splits)

declare for_grasps.simps [simp del]

function for_places :: "euler_fun \<Rightarrow> place_frame \<Rightarrow> store \<Rightarrow> PoseStamped PlaceLocation list \<times> store" where
  "for_places qfe fr h =
     (case place_next qfe fr h of
        (None, fr', h') \<Rightarrow> ([], h')
      | (Some l, fr', h') \<Rightarrow>
          (read_place h' l # fst (for_places qfe fr' h'), snd (for_places qfe fr' h')))"
  by pat_completeness auto
termination
  by (relation "measure (\<lambda>(qfe, fr, h). if pgen_l fr = None then length (List.product pitches yaws) + 2
        else Suc (length (List.product pitches yaws)) - pgen_yields fr)")
     (auto simp: place_next_def Let_def split: option.splits if_splits)

declare for_places.simps [simp del]

text \<open>
  Two consumers of one pose object: the first takes two candidates from its generator
  and keeps the second, then the other takes one candidate from a generator of its
  own. The result is the kept candidate as read before and after the other's step.
\<close>

definition kept_grasp :: "euler_fun \<Rightarrow> ref \<Rightarrow> store \<Rightarrow> (PoseStamped Grasp \<times> PoseStamped Grasp) option" where
  "kept_grasp qfe r h =
     (case grasp_next qfe (getGrasps_call r) h of (a1, fa, h1) \<Rightarrow>
      case grasp_next qfe fa h1 of (a2, fa', h2) \<Rightarrow>
      case grasp_next qfe (getGrasps_call r) h2 of (b1, fb, h3) \<Rightarrow>
      case a2 of None \<Rightarrow> None | Some g \<Rightarrow> Some (read_grasp h2 g, read_grasp h3 g))"

definition kept_place :: "euler_fun \<Rightarrow> ref \<Rightarrow> store
    \<Rightarrow> (PoseStamped PlaceLocation \<times> PoseStamped PlaceLocation) option" where
  "kept_place qfe r h =
     (case place_next qfe (getPlaceLocations_call r) h of (a1, fa, h1) \<Rightarrow>
      case place_next qfe fa h1 of (a2, fa', h2) \<Rightarrow>
      case place_next qfe (getPlaceLocations_call r) h2 of (b1, fb, h3) \<Rightarrow>
      case a2 of None \<Rightarrow> None | Some l \<Rightarrow> Some (read_place h2 l, read_place h3 l))"

section \<open>MotionManager\<close>

datatype exn = IndexError | AttributeError

text \<open>
  The loop of \<^verbatim>\<open>moveToJointPosition\<close> reads \<^verbatim>\<open>joints[i]\<close> and \<^verbatim>\<open>positions[i]\<close> for every
  index of \<^verbatim>\<open>joints\<close>; a shorter list of positions raises \<^verbatim>\<open>IndexError\<close>.
\<close>

fun joint_constraints_of :: "string list \<Rightarrow> real list \<Rightarrow> real \<Rightarrow> exn + JointConstraint list" where
  "joint_constraints_of [] positions tolerance = Inr []"
| "joint_constraints_of (j # joints) [] tolerance = Inl IndexError"
| "joint_constraints_of (j # joints) (p # positions) tolerance =
     (case joint_constraints_of joints positions tolerance of
        Inl e \<Rightarrow> Inl e
      | Inr cs \<Rightarrow> Inr (\<lparr>joint_name = j, jc_position = p, tolerance_above = tolerance,
                         tolerance_below = tolerance, weight = 1\<rparr> # cs))"

definition moveToJointPosition :: "'w env \<Rightarrow> string \<Rightarrow> string list \<Rightarrow> real list \<Rightarrow> real \<Rightarrow> 'w node
    \<Rightarrow> (exn + int) \<times> 'w node" where
  "moveToJointPosition E grp joints positions tolerance s =
     (case joint_constraints_of joints positions tolerance of
        Inl e \<Rightarrow> (Inl e, s)
      | Inr c1 \<Rightarrow>
          (let g = \<lparr>goal_constraints = [c1], mg_group_name = grp, num_planning_attempts = 1,
                    mg_allowed_planning_time = 15, mg_plan_only = PLAN_ONLY,
                    look_around = False, replan = False\<rparr>;
               r = move_group_action E g (world s)
           in (Inr (fst r), s\<lparr>world := snd r\<rparr>)))"

section \<open>ArmPlanner\<close>

definition ArmPlanner_group :: string where
  "ArmPlanner_group = ''Arm''"

definition ArmPlanner_gripper_group :: string where
  "ArmPlanner_gripper_group = ''Gripper''"

definition BOARD_THICKNESS :: real where
  "BOARD_THICKNESS = 0.1"

definition CHESS_BOARD_FRAME :: string where
  "CHESS_BOARD_FRAME = ''chess_board''"

text \<open>The managers that \<^verbatim>\<open>__init__\<close> builds: \<^verbatim>\<open>_pick\<close> and \<^verbatim>\<open>_place\<close> get the same two names.\<close>

definition arm :: Manager where
  "arm = \<lparr>m_group = ArmPlanner_group, m_effector = ArmPlanner_gripper_group\<rparr>"

text \<open>The state after \<^verbatim>\<open>ArmPlanner.__init__\<close>, in a world \<open>w\<close>.\<close>

definition ArmPlanner_init :: "'w \<Rightarrow> 'w node" where
  "ArmPlanner_init w = \<lparr>success = True, collision = [], attached = [], rosout = [], world = w\<rparr>"

text \<open>A statement that may raise, followed by \<^verbatim>\<open>return v\<close>.\<close>

definition then_return :: "(exn + 'a) \<times> 's \<Rightarrow> 'b \<Rightarrow> (exn + 'b) \<times> 's" where
  "then_return r v = (case fst r of Inl e \<Rightarrow> (Inl e, snd r) | Inr u \<Rightarrow> (Inr v, snd r))"

definition tuck :: "'w env \<Rightarrow> 'w node \<Rightarrow> (exn + int) \<times> 'w node" where
  "tuck E s = moveToJointPosition E ArmPlanner_group joint_names joints_tucked 0.01 s"

definition untuck :: "'w env \<Rightarrow> 'w node \<Rightarrow> (exn + int) \<times> 'w node" where
  "untuck E s = moveToJointPosition E ArmPlanner_group joint_names joints_untucked 0.01 s"

text \<open>
  \<^verbatim>\<open>move_piece\<close>. The stamps are back-dated by one second; times are reals here, so the
  subtraction always has a value. The result of \<^verbatim>\<open>place\<close> is dropped, as in the source.
\<close>

definition board_pose :: "real \<Rightarrow> real \<Rightarrow> real \<Rightarrow> real \<Rightarrow> PoseStamped" where
  "board_pose t x y z =
     \<lparr>header = \<lparr>stamp = t, frame_id = CHESS_BOARD_FRAME\<rparr>,
      pose = \<lparr>position = \<lparr>p_x = x, p_y = y, p_z = z\<rparr>,
              orientation = \<lparr>q_x = 0, q_y = 0, q_z = 0, q_w = 1\<rparr>\<rparr>\<rparr>"

definition move_piece :: "'w env \<Rightarrow> chess_utilities \<Rightarrow> Pose \<Rightarrow> Pose \<Rightarrow> 'w node \<Rightarrow> (bool \<times> 'w node) option" where
  "move_piece E cu start_pose end_pose s =
     do {
       s1 \<leftarrow> remove E FIXED_FRAME ''table'' (rospy_log INFO ''Updating table position'' s);
       let p = board_pose (time_now E (world s1) - 1)
                 (SQUARE_SIZE cu * 4) (SQUARE_SIZE cu * 4) (- BOARD_THICKNESS / 2);
       let pt = transformPose E FIXED_FRAME p (world s1);
       s2 \<leftarrow> addBox E FIXED_FRAME ''table'' (SQUARE_SIZE cu * 8) (SQUARE_SIZE cu * 8) BOARD_THICKNESS
               (p_x (position (pose pt))) (p_y (position (pose pt))) (p_z (position (pose pt))) s1;
       s3 \<leftarrow> remove E FIXED_FRAME ''piece'' (rospy_log INFO ''Updating piece position'' s2);
       let p = board_pose (time_now E (world s3) - 1)
                 (p_x (position start_pose)) (p_y (position start_pose)) 0.03;
       let pt = transformPose E FIXED_FRAME p (world s3);
       s4 \<leftarrow> addCube E FIXED_FRAME ''piece'' 0.015
               (p_x (position (pose pt))) (p_y (position (pose pt))) (p_z (position (pose pt))) s3;
       let picked = pickup E arm ''piece'' pt (rospy_log INFO ''Picking piece'' s4);
       if \<not> fst picked then Some (False, snd picked)
       else do {
         let s6 = rospy_log INFO ''Placing piece'' (rospy_sleep E 1 (snd picked));
         let p = board_pose (time_now E (world s6) - 1)
                   (p_x (position end_pose)) (p_y (position end_pose)) 0.03;
         let pt = transformPose E FIXED_FRAME p (world s6);
         let placed = place E arm ''piece'' pt s6;
         Some (True, snd placed)
       }
     }"

text \<open>The pose that \<^verbatim>\<open>execute\<close> gives a captured piece, beside the board.\<close>

definition off_board_pose :: "chess_utilities \<Rightarrow> ChessPiece \<Rightarrow> Pose" where
  "off_board_pose cu fr =
     \<lparr>position = \<lparr>p_x = - 2 * SQUARE_SIZE cu, p_y = SQUARE_SIZE cu, p_z = p_z (position (pose fr))\<rparr>,
      orientation = \<lparr>q_x = 0, q_y = 0, q_z = 0, q_w = 0\<rparr>\<rparr>"

text \<open>The three lines \<^verbatim>\<open>logerr\<close>, \<^verbatim>\<open>self.success = False\<close>, \<^verbatim>\<open>self.tuck()\<close> before \<^verbatim>\<open>return None\<close>.\<close>

definition abort_move :: "'w env \<Rightarrow> string \<Rightarrow> 'w node \<Rightarrow> (exn + Pose option) \<times> 'w node" where
  "abort_move E msg s = then_return (tuck E ((rospy_log ERROR msg s)\<lparr>success := False\<rparr>)) None"

text \<open>
  \<^verbatim>\<open>execute\<close>. The result is \<open>None\<close> when the call never returns; otherwise it is the
  exception raised or the value returned (\<open>Inr None\<close> for Python's \<^verbatim>\<open>None\<close>), with the
  state. \<open>fr\<close> is first dereferenced in the capture block when there is one and after it
  otherwise; a source square without a piece makes that an \<^verbatim>\<open>AttributeError\<close>. A pose
  that the nested call returns is a message object and counts as true in \<^verbatim>\<open>if not\<close>. The
  intermediate value \<open>Inl\<close> carries an early exit past the rest of the body.
\<close>

partial_function (option) execute :: "'w env \<Rightarrow> chess_utilities \<Rightarrow> string \<Rightarrow> Board \<Rightarrow> 'w node
    \<Rightarrow> ((exn + Pose option) \<times> 'w node) option" where
  "execute E cu move board s =
     (let col_f = fst (toPosition board (take 2 move));
          rank_f = snd (toPosition board (take 2 move));
          col_t = fst (toPosition board (drop 2 move));
          rank_t = snd (toPosition board (drop 2 move));
          fr = getPiece board col_f rank_f;
          to = getPiece board col_t rank_t
      in do {
        captured \<leftarrow>
          (case to of
             None \<Rightarrow> Some (Inr s)
           | Some to_piece \<Rightarrow>
               (case fr of
                  None \<Rightarrow> Some (Inl (Inl AttributeError, s))
                | Some fr_piece \<Rightarrow>
                    do {
                      moved \<leftarrow> move_piece E cu (pose to_piece) (off_board_pose cu fr_piece) s;
                      if \<not> fst moved
                      then Some (Inl (abort_move E ''Failed to move captured piece'' (snd moved)))
                      else Some (Inr (snd moved))
                    }));
        case captured of
          Inl early \<Rightarrow> Some early
        | Inr s1 \<Rightarrow>
            (case fr of
               None \<Rightarrow> Some (Inl AttributeError, s1)
             | Some fr_piece \<Rightarrow>
                 do {
                   let to_pose = getPose cu col_t rank_t board (p_z (position (pose fr_piece)));
                   moved \<leftarrow> move_piece E cu (pose fr_piece) to_pose s1;
                   if \<not> fst moved
                   then Some (abort_move E ''Failed to move my piece'' (snd moved))
                   else do {
                     extra \<leftarrow>
                       (case castling_extras cu move of
                          None \<Rightarrow> Some (Inr (snd moved))
                        | Some extra_move \<Rightarrow>
                            do {
                              r \<leftarrow> execute E cu extra_move board (snd moved);
                              case fst r of
                                Inl e \<Rightarrow> Some (Inl (Inl e, snd r))
                              | Inr result \<Rightarrow>
                                  if result = None
                                  then Some (Inr (rospy_log ERROR ''Failed to carry out castling extra'' (snd r)))
                                  else Some (Inr (snd r))
                            });
                     case extra of
                       Inl early \<Rightarrow> Some early
                     | Inr s4 \<Rightarrow> Some (then_return (tuck E s4) (Some to_pose))
                   }
                 })
      })"

section \<open>Sample inputs\<close>

definition sample_pose :: PoseStamped where
  "sample_pose = \<lparr>header = \<lparr>stamp = 0, frame_id = FIXED_FRAME\<rparr>,
      pose = \<lparr>position = \<lparr>p_x = 0.3, p_y = 0.1, p_z = 0.03\<rparr>,
              orientation = \<lparr>q_x = 0, q_y = 0, q_z = 0, q_w = 1\<rparr>\<rparr>\<rparr>"

text \<open>A store in which every reference holds the sample pose.\<close>

definition sample_store :: store where
  "sample_store r = sample_pose"

text \<open>
  A \<^verbatim>\<open>chess_utilities\<close> with squares of 2.25 inches: \<^verbatim>\<open>SQUARE_SIZE\<close> is the double that the
  literal \<^verbatim>\<open>0.05715\<close> denotes.
\<close>

definition sample_cu :: chess_utilities where
  "sample_cu = \<lparr>SQUARE_SIZE = double_round 0.05715,
     castling_extras = [''e1c1'' \<mapsto> ''a1d1'', ''e1g1'' \<mapsto> ''h1f1'',
                        ''e8c8'' \<mapsto> ''a8d8'', ''e8g8'' \<mapsto> ''h8f8'']\<rparr>"

definition scene_op :: "Operation \<Rightarrow> string \<Rightarrow> CollisionObject" where
  "scene_op opn name =
     \<lparr>co_header = \<lparr>stamp = 0, frame_id = FIXED_FRAME\<rparr>, co_id = name,
      primitives = [], primitive_poses = [], operation = opn\<rparr>"

definition snapshot_of :: "CollisionObject list \<Rightarrow> PlanningScene" where
  "snapshot_of obs = \<lparr>world_collision_objects = obs, attached_collision_objects = []\<rparr>"

text \<open>Surroundings in which nothing ever arrives on the planning-scene topic.\<close>

definition silent_env :: "unit env" where
  "silent_env =
     \<lparr>quaternion_from_euler = tf_quaternion_from_euler,
      time_now = (\<lambda>w. 0), sleep = (\<lambda>d w. w), publish = (\<lambda>ob w. w),
      scene_feed = (\<lambda>w. ([], w)), transformPose = (\<lambda>frame ps w. ps),
      pickup_action = (\<lambda>g w. (1, w)), place_action = (\<lambda>g w. (1, w)),
      move_group_action = (\<lambda>g w. (1, w))\<rparr>"

text \<open>Squares as \<^verbatim>\<open>chess_utilities\<close> reads them: column from the letter, rank from the digit.\<close>

definition sample_toPosition :: "string \<Rightarrow> int \<times> int" where
  "sample_toPosition sq = (of_char (sq ! 0) - 97, of_char (sq ! 1) - 48)"

definition piece_at :: "int \<Rightarrow> int \<Rightarrow> ChessPiece" where
  "piece_at col rank =
     \<lparr>header = \<lparr>stamp = 0, frame_id = ''chess_board''\<rparr>,
      pose = \<lparr>position = \<lparr>p_x = float_add (float_mul (float_of_int col) (SQUARE_SIZE sample_cu))
                                           (float_div (SQUARE_SIZE sample_cu) (float_of_int 2)),
                          p_y = float_add (float_mul (float_of_int (rank - 1)) (SQUARE_SIZE sample_cu))
                                           (float_div (SQUARE_SIZE sample_cu) (float_of_int 2)),
                          p_z = 0\<rparr>,
              orientation = \<lparr>q_x = 0, q_y = 0, q_z = 0, q_w = 1\<rparr>\<rparr>\<rparr>"

text \<open>
  A position with white to move: white king e1, rook h1, pawn e4; black pawn d5.
\<close>

definition sample_board :: Board where
  "sample_board =
     \<lparr>toPosition = sample_toPosition,
      getPiece = (\<lambda>col rank. if (col, rank) \<in> {(4, 1), (7, 1), (4, 4), (3, 5)}
                              then Some (piece_at col rank) else None),
      side = WHITE\<rparr>"

text \<open>The same position seen from the other side.\<close>

definition black_board :: Board where
  "black_board = sample_board\<lparr>side := BLACK\<rparr>"

text \<open>
  Stub servers without a state of their own: one accepts the grasp, or the place
  location, with a given identifier and rejects every other goal with the code -1.
\<close>

definition pick_only :: "string \<Rightarrow> PickupGoal \<Rightarrow> unit \<Rightarrow> int \<times> unit" where
  "pick_only ok g w = (if map grasp_id (possible_grasps g) = [ok] then 1 else - 1, w)"

definition place_only :: "string \<Rightarrow> PlaceGoal \<Rightarrow> unit \<Rightarrow> int \<times> unit" where
  "place_only ok g w = (if map place_id (place_locations g) = [ok] then 1 else - 1, w)"

definition pick_env :: "(PickupGoal \<Rightarrow> unit \<Rightarrow> int \<times> unit) \<Rightarrow> (unit \<times> PickupGoal list) env" where
  "pick_env stub =
     \<lparr>quaternion_from_euler = tf_quaternion_from_euler,
      time_now = (\<lambda>w. 0), sleep = (\<lambda>d w. w), publish = (\<lambda>ob w. w),
      scene_feed = (\<lambda>w. ([], w)), transformPose = (\<lambda>frame ps w. ps),
      pickup_action = recording stub, place_action = (\<lambda>g w. (1, w)),
      move_group_action = (\<lambda>g w. (1, w))\<rparr>"

definition place_env :: "(PlaceGoal \<Rightarrow> unit \<Rightarrow> int \<times> unit) \<Rightarrow> (unit \<times> PlaceGoal list) env" where
  "place_env stub =
     \<lparr>quaternion_from_euler = tf_quaternion_from_euler,
      time_now = (\<lambda>w. 0), sleep = (\<lambda>d w. w), publish = (\<lambda>ob w. w),
      scene_feed = (\<lambda>w. ([], w)), transformPose = (\<lambda>frame ps w. ps),
      pickup_action = (\<lambda>g w. (1, w)), place_action = recording stub,
      move_group_action = (\<lambda>g w. (1, w))\<rparr>"

text \<open>
  A test bench for the whole node. The world records what it is sent. Every collision
  object published comes back once, in the next planning-scene message; the transform
  from the board to the base is the identity; the motion server reports success; the
  pickup and place servers answer with the status codes of two given functions.
\<close>

record bench =
  pending :: "CollisionObject list"
  clock :: real
  picks :: "PickupGoal list"
  places :: "PlaceGoal list"
  motions :: "MoveGroupGoal list"

definition bench_env :: "(PickupGoal \<Rightarrow> bench \<Rightarrow> int) \<Rightarrow> (PlaceGoal \<Rightarrow> bench \<Rightarrow> int) \<Rightarrow> bench env" where
  "bench_env pick_code place_code =
     \<lparr>quaternion_from_euler = tf_quaternion_from_euler,
      time_now = clock,
      sleep = (\<lambda>d w. w\<lparr>clock := clock w + d\<rparr>),
      publish = (\<lambda>ob w. w\<lparr>pending := pending w @ [ob]\<rparr>),
      scene_feed = (\<lambda>w. (if pending w = [] then [] else [snapshot_of (pending w)], w\<lparr>pending := []\<rparr>)),
      transformPose = (\<lambda>frame ps w. ps\<lparr>header := (header ps)\<lparr>frame_id := frame\<rparr>\<rparr>),
      pickup_action = (\<lambda>g w. (pick_code g w, w\<lparr>picks := picks w @ [g]\<rparr>)),
      place_action = (\<lambda>g w. (place_code g w, w\<lparr>places := places w @ [g]\<rparr>)),
      move_group_action = (\<lambda>g w. (1, w\<lparr>motions := motions w @ [g]\<rparr>))\<rparr>"

text \<open>Servers for the bench: one accepts every goal, one rejects every goal, one accepts
  a pickup goal only when no pickup goal has been sent before.\<close>

definition accept_all :: "'g \<Rightarrow> bench \<Rightarrow> int" where
  "accept_all g w = 1"

definition reject_all :: "'g \<Rightarrow> bench \<Rightarrow> int" where
  "reject_all g w = - 1"

definition accept_first_pick :: "PickupGoal \<Rightarrow> bench \<Rightarrow> int" where
  "accept_first_pick g w = (if picks w = [] then 1 else - 1)"

definition bench0 :: bench where
  "bench0 = \<lparr>pending = [], clock = 10, picks = [], places = [], motions = []\<rparr>"

text \<open>
  What a test reads after a call of \<^verbatim>\<open>execute\<close> on the bench: the value returned, the
  flag \<^verbatim>\<open>success\<close>, the error lines logged, and how many pickup, place and motion
  goals were sent.
\<close>

definition outcome :: "((exn + Pose option) \<times> bench node) option
    \<Rightarrow> ((exn + Pose option) \<times> bool \<times> string list \<times> nat \<times> nat \<times> nat) option" where
  "outcome r =
     map_option (\<lambda>vs. (fst vs, success (snd vs),
        map snd (filter (\<lambda>l. fst l = ERROR) (rosout (snd vs))),
        length (picks (world (snd vs))), length (places (world (snd vs))),
        length (motions (world (snd vs))))) r"

text \<open>
  Two more readings of the bench after a call: the positions of the grasp poses in the
  pickup goals, in the order the goals were sent, and the motion goals sent.
\<close>

definition picked_at :: "((exn + Pose option) \<times> bench node) option \<Rightarrow> Point list option" where
  "picked_at r =
     map_option (\<lambda>vs. concat (map (\<lambda>g. map (\<lambda>gr. position (pose (grasp_pose gr))) (possible_grasps g))
                                     (picks (world (snd vs))))) r"

definition motions_sent :: "((exn + Pose option) \<times> bench node) option \<Rightarrow> MoveGroupGoal list option" where
  "motions_sent r = map_option (\<lambda>vs. motions (world (snd vs))) r"

section \<open>Fields after each primitive step\<close>

lemma rospy_log_fields [simp]:
  "collision (rospy_log lvl m s) = collision s"
  "attached (rospy_log lvl m s) = attached s"
  "success (rospy_log lvl m s) = success s"
  "world (rospy_log lvl m s) = world s"
  "rosout (rospy_log lvl m s) = rosout s @ [(lvl, m)]"
  by (simp_all add: rospy_log_def)

lemma rospy_sleep_fields [simp]:
  "collision (rospy_sleep E d s) = collision s"
  "attached (rospy_sleep E d s) = attached s"
  "success (rospy_sleep E d s) = success s"
  "rosout (rospy_sleep E d s) = rosout s"
  "world (rospy_sleep E d s) = sleep E d (world s)"
  by (simp_all add: rospy_sleep_def)

lemma pub_publish_fields [simp]:
  "collision (pub_publish E ob s) = collision s"
  "attached (pub_publish E ob s) = attached s"
  "success (pub_publish E ob s) = success s"
  "rosout (pub_publish E ob s) = rosout s"
  "world (pub_publish E ob s) = publish E ob (world s)"
  by (simp_all add: pub_publish_def)

section \<open>The candidate sequences\<close>

lemma str_pitches: "map str_float pitches = [''0.05'', ''0.1'', ''0.2'', ''0.4'']"
  unfolding pitches_def str_float_def by code_simp

lemma str_yaws: "map str_float yaws = [''-1.57'', ''-0.78'', ''0.0'', ''0.78'', ''1.57'']"
  unfolding yaws_def str_float_def by code_simp

lemma grasp_ids: "map grasp_id (getGrasps qfe ps) = ''direct_overhead'' # tilted_ids"
  by (simp add: getGrasps_def tilted_ids_def Let_def map_concat comp_def)

lemma place_ids: "map place_id (getPlaceLocations qfe ps) = ''direct_overhead'' # tilted_ids"
  by (simp add: getPlaceLocations_def tilted_ids_def Let_def map_concat comp_def)

lemma tilted_ids_text:
  "tilted_ids =
     [''0.05+-1.57'', ''0.05+-0.78'', ''0.05+0.0'', ''0.05+0.78'', ''0.05+1.57'',
      ''0.1+-1.57'', ''0.1+-0.78'', ''0.1+0.0'', ''0.1+0.78'', ''0.1+1.57'',
      ''0.2+-1.57'', ''0.2+-0.78'', ''0.2+0.0'', ''0.2+0.78'', ''0.2+1.57'',
      ''0.4+-1.57'', ''0.4+-0.78'', ''0.4+0.0'', ''0.4+0.78'', ''0.4+1.57'']"
proof -
  have "tilted_ids = concat (map (\<lambda>p. map (\<lambda>y. p @ ''+'' @ y) (map str_float yaws)) (map str_float pitches))"
    by (simp add: tilted_ids_def comp_def)
  then show ?thesis
    by (simp add: str_pitches str_yaws)
qed

lemma grasp_qualities:
  "map grasp_quality (getGrasps qfe ps) =
     1 # concat (map (\<lambda>p. map (\<lambda>y. 1 - 1.25 * p - \<bar>y\<bar> / 4) yaws) pitches)"
  by (simp add: getGrasps_def Let_def map_concat comp_def)

lemma grasp_quality_values:
  "map grasp_quality (getGrasps qfe ps) =
     [1, 0.545, 0.7425, 0.9375, 0.7425, 0.545,
      0.4825, 0.68, 0.875, 0.68, 0.4825,
      0.3575, 0.555, 0.75, 0.555, 0.3575,
      0.1075, 0.305, 0.5, 0.305, 0.1075]"
  by (simp add: grasp_qualities pitches_def yaws_def)




text \<open>
  C6 fails on the code: the third grasp of the sequence has a higher quality than the
  second one (0.7425 against 0.545), for every input pose.
\<close>

theorem quality_rises_within_pitch_group: "grasp_quality (getGrasps qfe ps ! 1) < grasp_quality (getGrasps qfe ps ! 2)"
proof -
  have "map grasp_quality (getGrasps qfe ps) ! 1 < map grasp_quality (getGrasps qfe ps) ! 2"
    unfolding grasp_quality_values by simp
  moreover have "length (getGrasps qfe ps) = 21"
    by (simp add: getGrasps_def pitches_def yaws_def)
  ultimately show ?thesis by simp
qed

section \<open>The tracker\<close>

lemma scene_event_fields [simp]:
  "collision (scene_event ob s) = list_event ob (collision s)"
  "attached (scene_event ob s) = attached s"
  "success (scene_event ob s) = success s"
  "world (scene_event ob s) = world s"
  by (simp_all add: scene_event_def list_event_def remove1_idem)

lemma fold_scene_event_fields [simp]:
  "collision (fold scene_event obs s) = fold list_event obs (collision s)"
  "attached (fold scene_event obs s) = attached s"
  "success (fold scene_event obs s) = success s"
  "world (fold scene_event obs s) = world s"
  by (induction obs arbitrary: s) simp_all

lemma attached_event_fields [simp]:
  "collision (attached_event ob s) = collision s"
  "attached (attached_event ob s) = attached s @ [co_id (object ob)]"
  "success (attached_event ob s) = success s"
  "world (attached_event ob s) = world s"
  by (simp_all add: attached_event_def)

lemma fold_attached_event_fields [simp]:
  "collision (fold attached_event obs s) = collision s"
  "attached (fold attached_event obs s) = attached s @ map (\<lambda>ob. co_id (object ob)) obs"
  "success (fold attached_event obs s) = success s"
  "world (fold attached_event obs s) = world s"
  by (induction obs arbitrary: s) simp_all

lemma sceneCb_fields [simp]:
  "collision (sceneCb msg s) = fold list_event (world_collision_objects msg) (collision s)"
  "attached (sceneCb msg s) = map (\<lambda>ob. co_id (object ob)) (attached_collision_objects msg)"
  "success (sceneCb msg s) = success s"
  "world (sceneCb msg s) = world s"
  by (simp_all add: sceneCb_def)

lemma count_list_remove1:
  "count_list (remove1 x xs) y = (if x = y then count_list xs y - 1 else count_list xs y)"
  by (induction xs) auto

text \<open>
  C8, as the code has it. \<^verbatim>\<open>sceneCb\<close> keeps \<^verbatim>\<open>_collision\<close> as a list: an add event
  appends the identifier, so the identifier is a member afterwards; a remove event
  deletes one occurrence, the first, so the identifier stays a member when it was
  recorded more than once; a remove event for an identifier that is not in the list
  changes nothing; events that neither add nor remove change nothing. \<^verbatim>\<open>_attached\<close>
  becomes the list of the identifiers of the snapshot's attached objects, whatever it
  held before.
\<close>

theorem sceneCb_updates_lists:
  "collision (sceneCb msg s) =
     fold (\<lambda>ob xs. if operation ob = ADD then xs @ [co_id ob]
                    else if operation ob = REMOVE then remove1 (co_id ob) xs
                    else xs) (world_collision_objects msg) (collision s) \<and>
   attached (sceneCb msg s) = map (\<lambda>ob. co_id (object ob)) (attached_collision_objects msg) \<and>
   (operation ob = ADD \<longrightarrow> co_id ob \<in> set (collision (scene_event ob s))) \<and>
   (operation ob = REMOVE \<longrightarrow>
      count_list (collision (scene_event ob s)) (co_id ob) = count_list (collision s) (co_id ob) - 1) \<and>
   (operation ob = REMOVE \<and> co_id ob \<notin> set (collision s) \<longrightarrow> scene_event ob s = s)"
proof (intro conjI impI)
  have "list_event = (\<lambda>ob xs. if operation ob = ADD then xs @ [co_id ob]
                    else if operation ob = REMOVE then remove1 (co_id ob) xs
                    else xs)"
    by (simp add: list_event_def fun_eq_iff)
  then show "collision (sceneCb msg s) =
     fold (\<lambda>ob xs. if operation ob = ADD then xs @ [co_id ob]
                    else if operation ob = REMOVE then remove1 (co_id ob) xs
                    else xs) (world_collision_objects msg) (collision s)"
    by (simp del: fold_simps)
  show "attached (sceneCb msg s) = map (\<lambda>ob. co_id (object ob)) (attached_collision_objects msg)"
    by simp
  show "co_id ob \<in> set (collision (scene_event ob s))" if "operation ob = ADD"
    using that by (simp add: list_event_def)
  show "count_list (collision (scene_event ob s)) (co_id ob) = count_list (collision s) (co_id ob) - 1"
    if "operation ob = REMOVE"
    using that by (simp add: list_event_def count_list_remove1)
  show "scene_event ob s = s" if "operation ob = REMOVE \<and> co_id ob \<notin> set (collision s)"
    using that by (simp add: scene_event_def)
qed

theorem sceneCb_updates_lists_witness:
  "operation (scene_op ADD ''table'') = ADD \<and>
   operation (scene_op REMOVE ''piece'') = REMOVE \<and> ''piece'' \<notin> set (collision (ArmPlanner_init ())) \<and>
   collision (scene_event (scene_op ADD ''table'') (ArmPlanner_init ())) = [''table''] \<and>
   scene_event (scene_op REMOVE ''piece'') (ArmPlanner_init ()) = ArmPlanner_init ()"
  using sceneCb_updates_lists [of "snapshot_of []" "ArmPlanner_init ()" "scene_op ADD ''table''"]
        sceneCb_updates_lists [of "snapshot_of []" "ArmPlanner_init ()" "scene_op REMOVE ''piece''"]
  by (simp add: scene_op_def ArmPlanner_init_def list_event_def)

text \<open>
  C8 as stated fails: after one snapshot with two add events and one remove event for
  \<open>piece\<close>, the remove event has not taken \<open>piece\<close> out of the free-object membership.
\<close>

theorem duplicate_survives_remove_event:
  "''piece'' \<in> set (getKnownCollisionObjects
      (sceneCb (snapshot_of [scene_op ADD ''piece'', scene_op ADD ''piece'', scene_op REMOVE ''piece''])
         (ArmPlanner_init ())))"
  by (simp add: getKnownCollisionObjects_def snapshot_of_def scene_op_def ArmPlanner_init_def list_event_def)

lemma deliver_silent:
  "fst (scene_feed E (world s)) = [] \<Longrightarrow> collision (deliver E s) = collision s"
  by (simp add: deliver_def)



section \<open>Rounding to doubles\<close>

text \<open>
  \<open>ilog2 a\<close> is the binary exponent of a positive real \<open>a\<close>, and rounding to an integer
  moves a real by at most one half. So the result of \<open>double_round\<close> is a double, an
  integer of at most 53 bits times a power of two with exponent at least \<open>-1074\<close>, and it
  is within half a unit in the last place of the argument: a relative error of \<open>2 ^ -53\<close>,
  or \<open>2 ^ -1075\<close> among the subnormal numbers.
\<close>

lemma ilog2_le: assumes "0 < a" shows "2 powi ilog2 a \<le> a"
proof (cases "1 \<le> a")
  case True
  then have pos: "0 < \<lfloor>a\<rfloor>" by linarith
  then have "1 \<le> bitlen \<lfloor>a\<rfloor>" by (auto simp: bitlen_alt_def)
  then have "2 powi ilog2 a = (2::real) ^ nat (bitlen \<lfloor>a\<rfloor> - 1)"
    using True by (simp add: ilog2_def power_int_nonneg_exp)
  also have "\<dots> \<le> of_int \<lfloor>a\<rfloor>"
    using bitlen_bounds [OF pos] by (metis of_int_le_iff of_int_numeral of_int_power)
  also have "\<dots> \<le> a" by simp
  finally show ?thesis .
next
  case False
  let ?n = "\<lceil>1 / a\<rceil> - 1"
  from False assms have "1 < 1 / a" by (simp add: field_simps)
  then have n: "0 < ?n" by linarith
  then have k: "1 \<le> bitlen ?n" by (auto simp: bitlen_alt_def)
  have "?n < 2 ^ nat (bitlen ?n)" using bitlen_bounds [OF n] ..
  then have "\<lceil>1 / a\<rceil> \<le> 2 ^ nat (bitlen ?n)" by linarith
  then have "1 / a \<le> 2 ^ nat (bitlen ?n)"
    by (metis ceiling_le_iff of_int_numeral of_int_power)
  then have "1 / 2 ^ nat (bitlen ?n) \<le> a"
    using assms by (simp add: field_simps)
  moreover have "2 powi ilog2 a = 1 / (2::real) ^ nat (bitlen ?n)"
    using False k by (simp add: ilog2_def power_int_minus_divide power_int_nonneg_exp)
  ultimately show ?thesis by simp
qed

lemma ilog2_less: assumes "0 < a" shows "a < 2 powi (ilog2 a + 1)"
proof (cases "1 \<le> a")
  case True
  then have pos: "0 < \<lfloor>a\<rfloor>" by linarith
  then have "0 \<le> bitlen \<lfloor>a\<rfloor>" by (simp add: bitlen_alt_def)
  then have "2 powi (ilog2 a + 1) = (2::real) ^ nat (bitlen \<lfloor>a\<rfloor>)"
    using True by (simp add: ilog2_def power_int_nonneg_exp)
  moreover have "\<lfloor>a\<rfloor> < 2 ^ nat (bitlen \<lfloor>a\<rfloor>)"
    using bitlen_bounds [OF pos] ..
  then have "\<lfloor>a\<rfloor> + 1 \<le> 2 ^ nat (bitlen \<lfloor>a\<rfloor>)" by linarith
  then have "of_int (\<lfloor>a\<rfloor> + 1) \<le> (2::real) ^ nat (bitlen \<lfloor>a\<rfloor>)"
    by (metis of_int_le_iff of_int_numeral of_int_power)
  moreover have "a < of_int (\<lfloor>a\<rfloor> + 1)" by linarith
  ultimately show ?thesis by linarith
next
  case False
  let ?n = "\<lceil>1 / a\<rceil> - 1"
  from False assms have "1 < 1 / a" by (simp add: field_simps)
  then have n: "0 < ?n" by linarith
  then have k: "1 \<le> bitlen ?n" by (auto simp: bitlen_alt_def)
  have "2 ^ nat (bitlen ?n - 1) \<le> ?n" using bitlen_bounds [OF n] ..
  then have "(2::real) ^ nat (bitlen ?n - 1) \<le> of_int ?n"
    by (metis of_int_le_iff of_int_numeral of_int_power)
  also have "of_int ?n < 1 / a" by linarith
  finally have "a < 1 / 2 ^ nat (bitlen ?n - 1)"
    using assms by (simp add: field_simps)
  moreover have "2 powi (ilog2 a + 1) = 1 / (2::real) ^ nat (bitlen ?n - 1)"
  proof -
    have "ilog2 a + 1 = - (bitlen ?n - 1)"
      using False by (simp add: ilog2_def)
    then show ?thesis
      using k by (simp only: power_int_minus_divide) (simp add: power_int_nonneg_exp)
  qed
  ultimately show ?thesis by simp
qed

lemma round_half_even_near: "\<bar>of_int (round_half_even v) - v\<bar> \<le> 1 / 2"
  unfolding round_half_even_def by (auto simp: abs_le_iff)

lemma pow_step: "(2::real) powi (k - 52) = 2 powi k / 2 ^ 52"
  by (simp add: power_int_diff)

lemma half_pow: "1 / 2 * (x / 2 ^ 52) = x / (2::real) ^ 53"
  by simp

lemma tiny: "1 / 2 * (2::real) powi (- 1074) = 1 / 2 ^ 1075"
proof -
  have "(2::real) powi (- 1074) = 1 / 2 ^ 1074"
    by (simp only: power_int_minus_divide power_int_numeral)
  moreover have "(2::real) ^ 1075 = 2 * 2 ^ 1074"
    by (metis power_Suc Suc_eq_plus1 add.commute numeral_plus_one semiring_norm(5) semiring_norm(4) semiring_norm(3) semiring_norm(2))
  ultimately show ?thesis by (simp only: divide_divide_eq_left mult_1 times_divide_eq_right mult.commute)
qed

lemma double_round_error: "\<bar>double_round v - v\<bar> \<le> \<bar>v\<bar> / 2 ^ 53 + 1 / 2 ^ 1075"
proof (cases "v = 0")
  case True
  then show ?thesis by (simp add: double_round_def)
next
  case False
  define a where "a = \<bar>v\<bar>"
  define e where "e = max (ilog2 a - 52) (- 1074)"
  define p where "p = (2::real) powi e"
  define m where "m = round_half_even (a / p)"
  define eta where "eta = 1 / (2::real) ^ 1075"
  have eta: "0 \<le> eta" by (simp add: eta_def)
  have p: "0 < p" by (simp add: p_def)
  have a: "0 < a" using False by (simp add: a_def)
  have dr: "double_round v = sgn v * of_int m * p"
    using False by (simp add: double_round_def m_def p_def e_def a_def)
  have v: "v = sgn v * a"
    by (simp add: a_def sgn_real_def abs_if)
  have "double_round v - v = sgn v * (of_int m * p - a)"
    by (subst (2) v) (simp add: dr algebra_simps)
  then have "\<bar>double_round v - v\<bar> = \<bar>of_int m * p - a\<bar>"
    using False by (simp add: abs_mult sgn_real_def)
  also have "of_int m * p - a = (of_int m - a / p) * p"
    using p by (simp add: field_simps)
  also have "\<bar>(of_int m - a / p) * p\<bar> = \<bar>of_int m - a / p\<bar> * p"
    using p by (simp add: abs_mult)
  also have "\<dots> \<le> 1 / 2 * p"
    using round_half_even_near [of "a / p"] p unfolding m_def by (intro mult_right_mono) simp_all
  also have "\<dots> \<le> a / 2 ^ 53 + eta"
  proof (cases "- 1074 \<le> ilog2 a - 52")
    case True
    then have "e = ilog2 a - 52"
      unfolding e_def by linarith
    then have "p = 2 powi ilog2 a / 2 ^ 52"
      unfolding p_def by (simp only: pow_step)
    also have "\<dots> \<le> a / 2 ^ 52"
      using ilog2_le [OF a] by (intro divide_right_mono) simp_all
    finally have "1 / 2 * p \<le> 1 / 2 * (a / 2 ^ 52)"
      by (intro mult_left_mono) simp_all
    then have "1 / 2 * p \<le> a / 2 ^ 53"
      by (simp only: half_pow)
    with eta show ?thesis by linarith
  next
    case False
    then have "e = - 1074"
      unfolding e_def by linarith
    then have "1 / 2 * p = eta"
      unfolding p_def eta_def by (simp only: tiny)
    moreover have "0 \<le> a / 2 ^ 53"
      using a by (intro divide_nonneg_nonneg) simp_all
    ultimately show ?thesis by linarith
  qed
  finally show ?thesis
    unfolding a_def eta_def .
qed

lemma round_half_even_le:
  assumes "v \<le> of_int n" shows "round_half_even v \<le> n"
proof -
  have "\<lfloor>v\<rfloor> \<le> n" using assms by linarith
  moreover have "\<lfloor>v\<rfloor> + 1 \<le> n" if "of_int \<lfloor>v\<rfloor> < v"
    using that assms by linarith
  ultimately show ?thesis
    unfolding round_half_even_def by (auto split: if_splits)
qed

lemma round_half_even_nonneg:
  assumes "0 \<le> v" shows "0 \<le> round_half_even v"
  using assms unfolding round_half_even_def by (auto split: if_splits)

lemma double_round_is_double:
  "\<exists>m e. double_round v = of_int m * 2 powi e \<and> \<bar>m\<bar> \<le> 2 ^ 53 \<and> - 1074 \<le> e"
proof (cases "v = 0")
  case True
  then have "double_round v = of_int 0 * 2 powi 0" by (simp add: double_round_def)
  then show ?thesis by (intro exI [of _ 0] exI [of _ "0::int"]) simp
next
  case False
  define a where "a = \<bar>v\<bar>"
  define e where "e = max (ilog2 a - 52) (- 1074)"
  define m where "m = round_half_even (a / 2 powi e)"
  define s :: int where "s = (if 0 < v then 1 else - 1)"
  have a: "0 < a" using False by (simp add: a_def)
  have p: "(0::real) < 2 powi e" by simp
  have "a < 2 powi (ilog2 a + 1)" using a by (rule ilog2_less)
  also have "(2::real) powi (ilog2 a + 1) = 2 ^ 53 * 2 powi (ilog2 a - 52)"
    by (simp add: power_int_diff power_int_add)
  also have "\<dots> \<le> 2 ^ 53 * 2 powi e"
    unfolding e_def by (intro mult_left_mono power_int_increasing) simp_all
  finally have "a / 2 powi e \<le> 2 ^ 53"
    using p by (simp add: field_simps)
  then have "a / 2 powi e \<le> of_int (2 ^ 53)" by simp
  then have up: "m \<le> 2 ^ 53" unfolding m_def by (rule round_half_even_le)
  have "0 \<le> a / 2 powi e" using a by simp
  then have lo: "0 \<le> m" unfolding m_def by (rule round_half_even_nonneg)
  have "double_round v = of_int (s * m) * 2 powi e"
    using False by (simp add: double_round_def m_def e_def a_def s_def sgn_real_def)
  moreover have "\<bar>s * m\<bar> \<le> 2 ^ 53" using up lo by (simp add: s_def abs_mult)
  moreover have "- 1074 \<le> e" by (simp add: e_def)
  ultimately show ?thesis by blast
qed

text \<open>The integers from 0 to 7 are doubles, and so is 2.\<close>

lemma float_of_small_int:
  assumes "0 \<le> k" and "k \<le> 7"
  shows "float_of_int k = of_int k"
proof -
  have e: "float_of_int 0 = 0" "float_of_int 1 = 1" "float_of_int 2 = 2" "float_of_int 3 = 3"
    "float_of_int 4 = 4" "float_of_int 5 = 5" "float_of_int 6 = 6" "float_of_int 7 = 7"
    by code_simp+
  from assms have "k = 0 \<or> k = 1 \<or> k = 2 \<or> k = 3 \<or> k = 4 \<or> k = 5 \<or> k = 6 \<or> k = 7"
    by presburger
  with e show ?thesis by auto
qed

lemma eta4: "4 * (1 / (2::real) ^ 1075) = 1 / 2 ^ 1073"
  by simp

lemma u4: "t * (4 * (1 / (2::real) ^ 53)) = t / 2 ^ 51"
  by simp

lemma coordinate_error:
  assumes "0 \<le> k" and "k \<le> 7"
  shows "\<bar>float_add (float_mul (of_int k) S) (float_div S 2) - (of_int k + 1 / 2) * S\<bar>
           \<le> (of_int k + 1 / 2) * \<bar>S\<bar> / 2 ^ 51 + 1 / 2 ^ 1073"
proof -
  define u where "u = 1 / (2::real) ^ 53"
  define eta where "eta = 1 / (2::real) ^ 1075"
  define K where "K = (of_int k :: real)"
  define a where "a = \<bar>S\<bar>"
  define t where "t = (K + 1 / 2) * a"
  define m where "m = double_round (K * S)"
  define h where "h = double_round (S / 2)"
  define x where "x = double_round (m + h)"
  have err: "\<bar>double_round v - v\<bar> \<le> \<bar>v\<bar> * u + eta" for v
    using double_round_error [of v] by (simp add: u_def eta_def)
  have u: "0 \<le> u" "u \<le> 1" by (simp_all add: u_def)
  have eta: "0 \<le> eta" by (simp add: eta_def)
  have K: "0 \<le> K" using assms by (simp add: K_def)
  have a: "0 \<le> a" by (simp add: a_def)
  have t: "0 \<le> t" using K a by (simp add: t_def)
  have tu: "0 \<le> t * u" using t u by simp
  have tuu: "t * u * u \<le> t * u" using tu u by (simp add: mult_left_le)
  have "u \<le> 1 / 2" by (simp add: u_def)
  then have "eta * u \<le> eta * (1 / 2)" using eta by (rule mult_left_mono)
  then have eu: "2 * (eta * u) \<le> eta" by simp
  have "\<bar>K * S\<bar> = K * a" using K by (simp add: a_def abs_mult)
  then have 1: "\<bar>m - K * S\<bar> \<le> K * a * u + eta"
    using err [of "K * S"] by (simp add: m_def)
  have "\<bar>S / 2\<bar> = a / 2" by (simp add: a_def)
  then have 2: "\<bar>h - S / 2\<bar> \<le> a / 2 * u + eta"
    using err [of "S / 2"] by (simp add: h_def)
  have split: "K * a * u + a / 2 * u = t * u"
    by (simp add: t_def algebra_simps)
  have "K * S + S / 2 = (K + 1 / 2) * S"
    by (simp add: algebra_simps)
  then have exact: "\<bar>K * S + S / 2\<bar> = t"
    using K by (simp add: t_def a_def abs_mult)
  have 3: "\<bar>m + h\<bar> \<le> t + t * u + 2 * eta"
    using 1 2 split exact by linarith
  have "\<bar>x - (m + h)\<bar> \<le> \<bar>m + h\<bar> * u + eta"
    using err [of "m + h"] by (simp add: x_def)
  also have "\<bar>m + h\<bar> * u \<le> (t + t * u + 2 * eta) * u"
    using 3 u by (intro mult_right_mono) simp_all
  also have "(t + t * u + 2 * eta) * u = t * u + t * u * u + 2 * (eta * u)"
    by (simp add: algebra_simps)
  finally have 4: "\<bar>x - (m + h)\<bar> \<le> t * u + t * u * u + 2 * (eta * u) + eta"
    by simp
  have 5: "\<bar>m - K * S\<bar> + \<bar>h - S / 2\<bar> \<le> t * u + 2 * eta"
    using 1 2 split by linarith
  have "\<bar>x - (K * S + S / 2)\<bar> \<le> \<bar>x - (m + h)\<bar> + (\<bar>m - K * S\<bar> + \<bar>h - S / 2\<bar>)"
    by linarith
  also have "\<dots> \<le> (t * u + t * u * u + 2 * (eta * u) + eta) + (t * u + 2 * eta)"
    using 4 5 by (rule add_mono)
  also have "\<dots> \<le> 4 * (t * u) + 4 * eta"
    using tuu eu tu eta by linarith
  also have "4 * (t * u) = t * (4 * u)"
    by simp
  finally have "\<bar>x - (K * S + S / 2)\<bar> \<le> t * (4 * u) + 4 * eta" .
  moreover have "(K + 1 / 2) * S = K * S + S / 2"
    by (simp add: algebra_simps)
  ultimately have "\<bar>x - (K + 1 / 2) * S\<bar> \<le> t * (4 * u) + 4 * eta"
    by simp
  then have "\<bar>x - (K + 1 / 2) * S\<bar> \<le> t / 2 ^ 51 + 1 / 2 ^ 1073"
    unfolding u_def eta_def by (simp only: eta4 u4)
  moreover have "float_add (float_mul (of_int k) S) (float_div S 2) = x"
    by (simp add: x_def m_def h_def K_def float_add_def float_mul_def float_div_def)
  ultimately show ?thesis
    by (simp add: t_def K_def a_def)
qed

text \<open>Some doubles: the literal \<^verbatim>\<open>0.05715\<close>, and what \<^verbatim>\<open>getPose\<close> computes from it.\<close>

lemma square_size_literal: "double_round 0.05715 = 8236182998535163 / 2 ^ 57"
  by code_simp

lemma sample_square_size: "SQUARE_SIZE sample_cu = 8236182998535163 / 2 ^ 57"
  unfolding sample_cu_def chess_utilities.select_convs by (rule square_size_literal)

lemma half_square: "float_div (8236182998535163 / 2 ^ 57) 2 = 8236182998535163 / 2 ^ 58"
  by code_simp

lemma three_squares: "float_mul 3 (8236182998535163 / 2 ^ 57) = 1544284312225343 / 2 ^ 53"
  by code_simp

lemma four_squares: "float_mul 4 (8236182998535163 / 2 ^ 57) = 8236182998535163 / 2 ^ 55"
  by code_simp

lemma eight_squares: "float_mul 8 (8236182998535163 / 2 ^ 57) = 8236182998535163 / 2 ^ 54"
  by code_simp

lemma centre_3: "float_add (1544284312225343 / 2 ^ 53) (8236182998535163 / 2 ^ 58) = 7206660123718267 / 2 ^ 55"
  by code_simp

lemma centre_4: "float_add (8236182998535163 / 2 ^ 55) (8236182998535163 / 2 ^ 58) = 4632852936676029 / 2 ^ 54"
  by code_simp

lemma centres_added: "float_add (7206660123718267 / 2 ^ 55) (4632852936676029 / 2 ^ 54) = 4118091499267581 / 2 ^ 53"
  by code_simp

lemma sample_centre_3:
  "float_add (float_mul 3 (SQUARE_SIZE sample_cu)) (float_div (SQUARE_SIZE sample_cu) 2) = 7206660123718267 / 2 ^ 55"
  unfolding sample_square_size three_squares half_square by (rule centre_3)

lemma sample_centre_4:
  "float_add (float_mul 4 (SQUARE_SIZE sample_cu)) (float_div (SQUARE_SIZE sample_cu) 2) = 4632852936676029 / 2 ^ 54"
  unfolding sample_square_size four_squares half_square by (rule centre_4)

lemma small_floats: "float_of_int 2 = 2" "float_of_int 3 = 3" "float_of_int 4 = 4" "float_of_int 8 = 8"
  by code_simp+

section \<open>Pose of a square\<close>

text \<open>
  C9, as the code has it. Take a square of the board, column \<open>c\<close> in \<open>0..7\<close> and rank \<open>r\<close> in
  \<open>1..8\<close>, and a \<^verbatim>\<open>SQUARE_SIZE\<close> of magnitude at most \<open>2 ^ 1000\<close>, so that no result leaves
  the range of doubles. For the side \<open>WHITE\<close> the position is
  \<open>(c * SQUARE_SIZE + SQUARE_SIZE / 2, (r - 1) * SQUARE_SIZE + SQUARE_SIZE / 2, z)\<close> and for
  any other side it is
  \<open>((7 - c) * SQUARE_SIZE + SQUARE_SIZE / 2, (8 - r) * SQUARE_SIZE + SQUARE_SIZE / 2, z)\<close>,
  where \<open>*\<close>, \<open>+\<close> and \<open>/\<close> are those of doubles: each rounds its result. The pose of a square
  for one side is exactly the pose of the mirrored square, column \<open>7 - c\<close> and rank \<open>9 - r\<close>,
  for the other side. The two x coordinates of one square add up to \<open>8 * SQUARE_SIZE\<close>
  within the rounding of the six operations, at most \<open>\<bar>SQUARE_SIZE\<bar> / 2 ^ 48 + 2 ^ -1072\<close>,
  and so do the two y coordinates.
\<close>

theorem getPose_mirrors_within_rounding:
  assumes "0 \<le> c" and "c \<le> 7" and "1 \<le> r" and "r \<le> 8" and "\<bar>SQUARE_SIZE cu\<bar> \<le> 2 ^ 1000"
  shows
    "(side board = WHITE \<longrightarrow>
        position (getPose cu c r board z) =
          \<lparr>p_x = float_add (float_mul (of_int c) (SQUARE_SIZE cu)) (float_div (SQUARE_SIZE cu) 2),
           p_y = float_add (float_mul (of_int (r - 1)) (SQUARE_SIZE cu)) (float_div (SQUARE_SIZE cu) 2),
           p_z = z\<rparr>) \<and>
     (side board \<noteq> WHITE \<longrightarrow>
        position (getPose cu c r board z) =
          \<lparr>p_x = float_add (float_mul (of_int (7 - c)) (SQUARE_SIZE cu)) (float_div (SQUARE_SIZE cu) 2),
           p_y = float_add (float_mul (of_int (8 - r)) (SQUARE_SIZE cu)) (float_div (SQUARE_SIZE cu) 2),
           p_z = z\<rparr>) \<and>
     (side wb = WHITE \<and> side bb \<noteq> WHITE \<longrightarrow>
        getPose cu c r bb z = getPose cu (7 - c) (9 - r) wb z \<and>
        \<bar>p_x (position (getPose cu c r wb z)) + p_x (position (getPose cu c r bb z)) - 8 * SQUARE_SIZE cu\<bar>
          \<le> \<bar>SQUARE_SIZE cu\<bar> / 2 ^ 48 + 1 / 2 ^ 1072 \<and>
        \<bar>p_y (position (getPose cu c r wb z)) + p_y (position (getPose cu c r bb z)) - 8 * SQUARE_SIZE cu\<bar>
          \<le> \<bar>SQUARE_SIZE cu\<bar> / 2 ^ 48 + 1 / 2 ^ 1072)"
proof -
  define S where "S = SQUARE_SIZE cu"
  define centre where "centre k = float_add (float_mul (of_int k) S) (float_div S 2)" for k :: int
  have two: "float_of_int 2 = 2"
    using float_of_small_int [of 2] by simp
  have ints: "float_of_int c = of_int c" "float_of_int (r - 1) = of_int (r - 1)"
    "float_of_int (7 - c) = of_int (7 - c)" "float_of_int (8 - r) = of_int (8 - r)"
    using assms by (simp_all add: float_of_small_int)
  have white: "position (getPose cu c r b z) = \<lparr>p_x = centre c, p_y = centre (r - 1), p_z = z\<rparr>"
    if "side b = WHITE" for b
    using that by (simp add: getPose_def two ints centre_def S_def)
  have black: "position (getPose cu c r b z) = \<lparr>p_x = centre (7 - c), p_y = centre (8 - r), p_z = z\<rparr>"
    if "side b \<noteq> WHITE" for b
    using that by (simp add: getPose_def two ints centre_def S_def)
  have pair: "\<bar>centre j + centre k - 8 * S\<bar> \<le> \<bar>S\<bar> / 2 ^ 48 + 1 / 2 ^ 1072"
    if j: "0 \<le> j" "j \<le> 7" and k: "k = 7 - j" for j k
  proof -
    define J where "J = (of_int j :: real)"
    define A where "A = \<bar>S\<bar> / 2 ^ 51"
    define eta where "eta = 1 / (2::real) ^ 1073"
    have K: "of_int k = 7 - J"
      by (simp add: k J_def)
    from k j have "0 \<le> k" "k \<le> 7" by simp_all
    from coordinate_error [OF this, of S] have 1: "\<bar>centre k - (7 - J + 1 / 2) * S\<bar> \<le> (7 - J + 1 / 2) * A + eta"
      unfolding centre_def K A_def eta_def by simp
    from coordinate_error [OF j, of S] have 2: "\<bar>centre j - (J + 1 / 2) * S\<bar> \<le> (J + 1 / 2) * A + eta"
      unfolding centre_def J_def A_def eta_def by simp
    have exact: "(J + 1 / 2) * S + (7 - J + 1 / 2) * S = 8 * S"
      by (simp add: algebra_simps)
    have bound: "((J + 1 / 2) * A + eta) + ((7 - J + 1 / 2) * A + eta) = 8 * A + 2 * eta"
      by (simp add: algebra_simps)
    have "\<bar>centre j + centre k - 8 * S\<bar>
        \<le> \<bar>centre j - (J + 1 / 2) * S\<bar> + \<bar>centre k - (7 - J + 1 / 2) * S\<bar>"
      using exact by linarith
    also have "\<dots> \<le> ((J + 1 / 2) * A + eta) + ((7 - J + 1 / 2) * A + eta)"
      using 2 1 by (rule add_mono)
    also note bound
    also have "8 * A = \<bar>S\<bar> / 2 ^ 48"
      by (simp add: A_def)
    also have "2 * eta = 1 / 2 ^ 1072"
      by (simp add: eta_def)
    finally show ?thesis .
  qed
  have rank: "0 \<le> r - 1" "r - 1 \<le> 7" "8 - r = 7 - (r - 1)"
    using assms by simp_all
  show ?thesis
  proof (intro conjI impI)
    assume "side board = WHITE"
    from white [OF this]
    show "position (getPose cu c r board z) =
          \<lparr>p_x = float_add (float_mul (of_int c) (SQUARE_SIZE cu)) (float_div (SQUARE_SIZE cu) 2),
           p_y = float_add (float_mul (of_int (r - 1)) (SQUARE_SIZE cu)) (float_div (SQUARE_SIZE cu) 2),
           p_z = z\<rparr>"
      unfolding centre_def S_def .
  next
    assume "side board \<noteq> WHITE"
    from black [OF this]
    show "position (getPose cu c r board z) =
          \<lparr>p_x = float_add (float_mul (of_int (7 - c)) (SQUARE_SIZE cu)) (float_div (SQUARE_SIZE cu) 2),
           p_y = float_add (float_mul (of_int (8 - r)) (SQUARE_SIZE cu)) (float_div (SQUARE_SIZE cu) 2),
           p_z = z\<rparr>"
      unfolding centre_def S_def .
  next
    assume "side wb = WHITE \<and> side bb \<noteq> WHITE"
    then show "getPose cu c r bb z = getPose cu (7 - c) (9 - r) wb z"
      by (simp add: getPose_def)
  next
    assume "side wb = WHITE \<and> side bb \<noteq> WHITE"
    then have "p_x (position (getPose cu c r wb z)) = centre c"
      "p_x (position (getPose cu c r bb z)) = centre (7 - c)"
      using white [of wb] black [of bb] by simp_all
    then show "\<bar>p_x (position (getPose cu c r wb z)) + p_x (position (getPose cu c r bb z)) - 8 * SQUARE_SIZE cu\<bar>
          \<le> \<bar>SQUARE_SIZE cu\<bar> / 2 ^ 48 + 1 / 2 ^ 1072"
      using pair [OF assms(1,2) refl] unfolding S_def by (simp only:)
  next
    assume "side wb = WHITE \<and> side bb \<noteq> WHITE"
    then have "p_y (position (getPose cu c r wb z)) = centre (r - 1)"
      "p_y (position (getPose cu c r bb z)) = centre (8 - r)"
      using white [of wb] black [of bb] by simp_all
    then show "\<bar>p_y (position (getPose cu c r wb z)) + p_y (position (getPose cu c r bb z)) - 8 * SQUARE_SIZE cu\<bar>
          \<le> \<bar>SQUARE_SIZE cu\<bar> / 2 ^ 48 + 1 / 2 ^ 1072"
      using pair [OF rank] unfolding S_def by (simp only:)
  qed
qed

theorem getPose_mirrors_within_rounding_witness:
  "(0::int) \<le> 3 \<and> (3::int) \<le> 7 \<and> (1::int) \<le> 4 \<and> (4::int) \<le> 8 \<and> \<bar>SQUARE_SIZE sample_cu\<bar> \<le> 2 ^ 1000 \<and>
   side sample_board = WHITE \<and> side black_board \<noteq> WHITE \<and>
   position (getPose sample_cu 3 4 sample_board 0) =
     \<lparr>p_x = 7206660123718267 / 2 ^ 55, p_y = 7206660123718267 / 2 ^ 55, p_z = 0\<rparr> \<and>
   position (getPose sample_cu 3 4 black_board 0) =
     \<lparr>p_x = 4632852936676029 / 2 ^ 54, p_y = 4632852936676029 / 2 ^ 54, p_z = 0\<rparr> \<and>
   getPose sample_cu 3 4 black_board 0 = getPose sample_cu 4 5 sample_board 0 \<and>
   \<bar>p_x (position (getPose sample_cu 3 4 sample_board 0)) + p_x (position (getPose sample_cu 3 4 black_board 0))
      - 8 * SQUARE_SIZE sample_cu\<bar> \<le> \<bar>SQUARE_SIZE sample_cu\<bar> / 2 ^ 48 + 1 / 2 ^ 1072"
proof -
  have range: "\<bar>SQUARE_SIZE sample_cu\<bar> \<le> 2 ^ 1000"
    unfolding sample_square_size by simp
  have sides: "side sample_board = WHITE" "side black_board \<noteq> WHITE"
    by (simp_all add: sample_board_def black_board_def)
  have square: "(0::int) \<le> 3" "(3::int) \<le> 7" "(1::int) \<le> 4" "(4::int) \<le> 8"
    by simp_all
  note inst = getPose_mirrors_within_rounding [where c = 3 and r = 4 and cu = sample_cu and z = 0, OF square range]
  from inst [where board = sample_board] sides(1)
  have w: "position (getPose sample_cu 3 4 sample_board 0) =
     \<lparr>p_x = 7206660123718267 / 2 ^ 55, p_y = 7206660123718267 / 2 ^ 55, p_z = 0\<rparr>"
    by (simp add: sample_centre_3)
  from inst [where board = black_board] sides(2)
  have b: "position (getPose sample_cu 3 4 black_board 0) =
     \<lparr>p_x = 4632852936676029 / 2 ^ 54, p_y = 4632852936676029 / 2 ^ 54, p_z = 0\<rparr>"
    by (simp add: sample_centre_4)
  from inst [where board = sample_board and wb = sample_board and bb = black_board] sides
  have m: "getPose sample_cu 3 4 black_board 0 = getPose sample_cu (7 - 3) (9 - 4) sample_board 0"
    and s: "\<bar>p_x (position (getPose sample_cu 3 4 sample_board 0)) + p_x (position (getPose sample_cu 3 4 black_board 0))
      - 8 * SQUARE_SIZE sample_cu\<bar> \<le> \<bar>SQUARE_SIZE sample_cu\<bar> / 2 ^ 48 + 1 / 2 ^ 1072"
    by blast+
  from m have m': "getPose sample_cu 3 4 black_board 0 = getPose sample_cu 4 5 sample_board 0"
    by simp
  from square range sides w b m' s show ?thesis
    by (intro conjI)
qed

text \<open>
  C9 as stated fails. With \<^verbatim>\<open>SQUARE_SIZE = 0.05715\<close> and the square d4 (column 3, rank 4),
  the x coordinate for white is the double \<^verbatim>\<open>0.20002499999999998\<close>, not
  \<open>3 * SQUARE_SIZE + SQUARE_SIZE / 2\<close>; the x coordinate for black is the double \<^verbatim>\<open>0.257175\<close>;
  their sum in doubles is \<^verbatim>\<open>0.45719999999999994\<close> while \<^verbatim>\<open>8 * SQUARE_SIZE\<close> is the double
  \<^verbatim>\<open>0.4572\<close>, and the exact sum of the two doubles is not \<open>8 * SQUARE_SIZE\<close> either.
\<close>

theorem mirror_sum_is_rounded:
  "p_x (position (getPose sample_cu 3 4 sample_board 0)) = 7206660123718267 / 2 ^ 55 \<and>
   p_x (position (getPose sample_cu 3 4 sample_board 0)) \<noteq> 3 * SQUARE_SIZE sample_cu + SQUARE_SIZE sample_cu / 2 \<and>
   p_x (position (getPose sample_cu 3 4 black_board 0)) = 4632852936676029 / 2 ^ 54 \<and>
   float_add (p_x (position (getPose sample_cu 3 4 sample_board 0)))
             (p_x (position (getPose sample_cu 3 4 black_board 0))) = 4118091499267581 / 2 ^ 53 \<and>
   float_mul (float_of_int 8) (SQUARE_SIZE sample_cu) = 8236182998535163 / 2 ^ 54 \<and>
   p_x (position (getPose sample_cu 3 4 sample_board 0)) + p_x (position (getPose sample_cu 3 4 black_board 0))
     \<noteq> 8 * SQUARE_SIZE sample_cu"
proof -
  have w: "p_x (position (getPose sample_cu 3 4 sample_board 0)) = 7206660123718267 / 2 ^ 55"
    by (simp add: getPose_def sample_board_def small_floats sample_centre_3)
  have b: "p_x (position (getPose sample_cu 3 4 black_board 0)) = 4632852936676029 / 2 ^ 54"
    by (simp add: getPose_def sample_board_def black_board_def small_floats sample_centre_4)
  have e: "float_mul (float_of_int 8) (SQUARE_SIZE sample_cu) = 8236182998535163 / 2 ^ 54"
    unfolding small_floats sample_square_size by (rule eight_squares)
  show ?thesis
  proof (intro conjI)
    show "p_x (position (getPose sample_cu 3 4 sample_board 0)) = 7206660123718267 / 2 ^ 55"
      by (rule w)
    show "p_x (position (getPose sample_cu 3 4 sample_board 0)) \<noteq> 3 * SQUARE_SIZE sample_cu + SQUARE_SIZE sample_cu / 2"
      unfolding w sample_square_size by simp
    show "p_x (position (getPose sample_cu 3 4 black_board 0)) = 4632852936676029 / 2 ^ 54"
      by (rule b)
    show "float_add (p_x (position (getPose sample_cu 3 4 sample_board 0)))
             (p_x (position (getPose sample_cu 3 4 black_board 0))) = 4118091499267581 / 2 ^ 53"
      unfolding w b by (rule centres_added)
    show "float_mul (float_of_int 8) (SQUARE_SIZE sample_cu) = 8236182998535163 / 2 ^ 54"
      by (rule e)
    show "p_x (position (getPose sample_cu 3 4 sample_board 0)) + p_x (position (getPose sample_cu 3 4 black_board 0))
        \<noteq> 8 * SQUARE_SIZE sample_cu"
      unfolding w b sample_square_size by simp
  qed
qed

section \<open>The retry loops\<close>

lemma takeWhile_first: "takeWhile P (x # xs) = (if P x then x # takeWhile P xs else [])"
  by simp

lemma pickup_loop_sent:
  assumes "pickup_action E = recording act"
  shows "world s = (w, sent) \<Longrightarrow>
     fst (pickup_loop E self name i cands s)
       = (length (takeWhile (\<lambda>c. c \<noteq> 1) (replies act (map (pickup_goal self name) cands) w)) < length cands) \<and>
     snd (world (snd (pickup_loop E self name i cands s)))
       = sent @ take (Suc (length (takeWhile (\<lambda>c. c \<noteq> 1) (replies act (map (pickup_goal self name) cands) w))))
                  (map (pickup_goal self name) cands)"
proof (induction cands arbitrary: i s w sent)
  case Nil
  then show ?case by simp
next
  case (Cons grasp rest)
  let ?g = "pickup_goal self name grasp"
  show ?case
  proof (cases "fst (act ?g w) = 1")
    case True
    with Cons.prems show ?thesis
      by (simp add: assms recording_def Let_def)
  next
    case False
    let ?s1 = "rospy_log INFO (''Failed Pick attempt '' @ str_int i)
       (s\<lparr>world := snd (recording act ?g (world s))\<rparr>)"
    have w1: "world ?s1 = (snd (act ?g w), sent @ [?g])"
      using Cons.prems by (simp add: recording_def)
    have step: "pickup_loop E self name i (grasp # rest) s = pickup_loop E self name (i + 1) rest ?s1"
      using False Cons.prems by (simp add: assms recording_def Let_def)
    show ?thesis
      unfolding step using Cons.IH [OF w1, of "i + 1"] False by simp
  qed
qed

lemma place_loop_sent:
  assumes "place_action E = recording act"
  shows "world s = (w, sent) \<Longrightarrow>
     fst (place_loop E self name i cands s)
       = (length (takeWhile (\<lambda>c. c \<noteq> 1) (replies act (map (place_goal self name) cands) w)) < length cands) \<and>
     snd (world (snd (place_loop E self name i cands s)))
       = sent @ take (Suc (length (takeWhile (\<lambda>c. c \<noteq> 1) (replies act (map (place_goal self name) cands) w))))
                  (map (place_goal self name) cands)"
proof (induction cands arbitrary: i s w sent)
  case Nil
  then show ?case by simp
next
  case (Cons location rest)
  let ?g = "place_goal self name location"
  show ?case
  proof (cases "fst (act ?g w) = 1")
    case True
    with Cons.prems show ?thesis
      by (simp add: assms recording_def Let_def)
  next
    case False
    let ?s1 = "rospy_log INFO (''Failed place attempt '' @ str_int i)
       (s\<lparr>world := snd (recording act ?g (world s))\<rparr>)"
    have w1: "world ?s1 = (snd (act ?g w), sent @ [?g])"
      using Cons.prems by (simp add: recording_def)
    have step: "place_loop E self name i (location # rest) s = place_loop E self name (i + 1) rest ?s1"
      using False Cons.prems by (simp add: assms recording_def Let_def)
    show ?thesis
      unfolding step using Cons.IH [OF w1, of "i + 1"] False by simp
  qed
qed

lemma first_success_index:
  assumes "k < length codes" "codes ! k = (1::int)" "\<forall>j<k. codes ! j \<noteq> 1"
  shows "length (takeWhile (\<lambda>c. c \<noteq> 1) codes) = k"
proof -
  have "takeWhile (\<lambda>c. c \<noteq> 1) codes = take k codes"
    using assms by (intro takeWhile_eq_take_P_nth) auto
  then show ?thesis using assms by simp
qed

lemma no_success_index:
  assumes "\<forall>c\<in>set codes. c \<noteq> (1::int)"
  shows "length (takeWhile (\<lambda>c. c \<noteq> 1) codes) = length codes"
  using assms by (simp add: takeWhile_eq_all_conv[THEN iffD2])

lemma length_replies [simp]: "length (replies act gs w) = length gs"
  by (induction gs arbitrary: w) simp_all

lemma distinct_tilted_ids: "distinct (''direct_overhead'' # tilted_ids)"
  unfolding tilted_ids_text by simp

lemma distinct_getGrasps: "distinct (getGrasps qfe ps)"
  using distinct_tilted_ids grasp_ids [of qfe ps] by (metis distinct_map)

lemma distinct_getPlaceLocations: "distinct (getPlaceLocations qfe ps)"
  using distinct_tilted_ids place_ids [of qfe ps] by (metis distinct_map)

lemma distinct_pickup_goals: "distinct (pickup_goals E self name ps)"
proof -
  have "map possible_grasps (pickup_goals E self name ps) = map (\<lambda>g. [g]) (getGrasps (quaternion_from_euler E) ps)"
    by (simp add: pickup_goals_def pickup_goal_def comp_def)
  moreover have "distinct (map (\<lambda>g. [g]) (getGrasps (quaternion_from_euler E) ps))"
    by (simp add: distinct_map distinct_getGrasps inj_on_def)
  ultimately show ?thesis by (metis distinct_map)
qed

lemma distinct_place_goals: "distinct (place_goals E self name ps)"
proof -
  have "map place_locations (place_goals E self name ps) = map (\<lambda>g. [g]) (getPlaceLocations (quaternion_from_euler E) ps)"
    by (simp add: place_goals_def place_goal_def comp_def)
  moreover have "distinct (map (\<lambda>g. [g]) (getPlaceLocations (quaternion_from_euler E) ps))"
    by (simp add: distinct_map distinct_getPlaceLocations inj_on_def)
  ultimately show ?thesis by (metis distinct_map)
qed

lemma length_pickup_goals [simp]: "length (pickup_goals E self name ps) = 21"
  by (simp add: pickup_goals_def getGrasps_def pitches_def yaws_def)

lemma length_place_goals [simp]: "length (place_goals E self name ps) = 21"
  by (simp add: place_goals_def getPlaceLocations_def pitches_def yaws_def)

lemma pickup_sent:
  assumes "pickup_action E = recording act" "world s = (w, [])"
  shows "fst (pickup E self name ps s)
       = (length (takeWhile (\<lambda>c. c \<noteq> 1) (replies act (pickup_goals E self name ps) w)) < 21)"
    and "goals_sent (pickup E self name ps s)
       = take (Suc (length (takeWhile (\<lambda>c. c \<noteq> 1) (replies act (pickup_goals E self name ps) w))))
            (pickup_goals E self name ps)"
  using pickup_loop_sent [OF assms, of self name 1 "getGrasps (quaternion_from_euler E) ps"]
    length_pickup_goals [of E self name ps]
  by (simp_all add: pickup_def pickup_goals_def goals_sent_def del: length_pickup_goals)

lemma place_sent:
  assumes "place_action E = recording act" "world s = (w, [])"
  shows "fst (place E self name ps s)
       = (length (takeWhile (\<lambda>c. c \<noteq> 1) (replies act (place_goals E self name ps) w)) < 21)"
    and "goals_sent (place E self name ps s)
       = take (Suc (length (takeWhile (\<lambda>c. c \<noteq> 1) (replies act (place_goals E self name ps) w))))
            (place_goals E self name ps)"
  using place_loop_sent [OF assms, of self name 1 "getPlaceLocations (quaternion_from_euler E) ps"]
    length_place_goals [of E self name ps]
  by (simp_all add: place_def place_goals_def goals_sent_def del: length_place_goals)

text \<open>
  C2. A stub is put behind a recorder, and the run starts with nothing recorded. If the
  stub's replies to the goals in generator order have their first status code 1 at
  position \<open>k\<close> (counted from 1, \<open>k \<le> 21\<close>), the executor returns success after
  sending exactly the first \<open>k\<close> goals of that order, each once. If none of the 21
  replies is 1, it returns failure after sending all 21 goals, in order, each once. The
  same holds for \<^verbatim>\<open>place\<close>.
\<close>

theorem retry_sends_candidates_in_order:
  fixes E :: "('w \<times> PickupGoal list) env" and F :: "('v \<times> PlaceGoal list) env"
  assumes "pickup_action E = recording pick_stub" and "world s = (w, [])"
    and "place_action F = recording place_stub" and "world t = (v, [])"
  shows
    "(1 \<le> k \<and> k \<le> 21 \<and>
      replies pick_stub (pickup_goals E self name ps) w ! (k - 1) = 1 \<and>
      (\<forall>j<k - 1. replies pick_stub (pickup_goals E self name ps) w ! j \<noteq> 1) \<longrightarrow>
        fst (pickup E self name ps s) \<and>
        length (goals_sent (pickup E self name ps s)) = k \<and>
        goals_sent (pickup E self name ps s) = take k (pickup_goals E self name ps) \<and>
        distinct (goals_sent (pickup E self name ps s))) \<and>
     ((\<forall>c\<in>set (replies pick_stub (pickup_goals E self name ps) w). c \<noteq> 1) \<longrightarrow>
        \<not> fst (pickup E self name ps s) \<and>
        length (goals_sent (pickup E self name ps s)) = 21 \<and>
        goals_sent (pickup E self name ps s) = pickup_goals E self name ps \<and>
        distinct (goals_sent (pickup E self name ps s))) \<and>
     (1 \<le> k \<and> k \<le> 21 \<and>
      replies place_stub (place_goals F self name ps) v ! (k - 1) = 1 \<and>
      (\<forall>j<k - 1. replies place_stub (place_goals F self name ps) v ! j \<noteq> 1) \<longrightarrow>
        fst (place F self name ps t) \<and>
        length (goals_sent (place F self name ps t)) = k \<and>
        goals_sent (place F self name ps t) = take k (place_goals F self name ps) \<and>
        distinct (goals_sent (place F self name ps t))) \<and>
     ((\<forall>c\<in>set (replies place_stub (place_goals F self name ps) v). c \<noteq> 1) \<longrightarrow>
        \<not> fst (place F self name ps t) \<and>
        length (goals_sent (place F self name ps t)) = 21 \<and>
        goals_sent (place F self name ps t) = place_goals F self name ps \<and>
        distinct (goals_sent (place F self name ps t)))"
proof (intro conjI impI)
  note pk = pickup_sent [OF assms(1,2), of self name ps]
  note pl = place_sent [OF assms(3,4), of self name ps]
  {
    assume a: "1 \<le> k \<and> k \<le> 21 \<and>
      replies pick_stub (pickup_goals E self name ps) w ! (k - 1) = 1 \<and>
      (\<forall>j<k - 1. replies pick_stub (pickup_goals E self name ps) w ! j \<noteq> 1)"
    then have idx: "length (takeWhile (\<lambda>c. c \<noteq> 1) (replies pick_stub (pickup_goals E self name ps) w)) = k - 1"
      by (intro first_success_index) auto
    from a have k: "k - 1 < 21" "Suc (k - 1) = k"
      by linarith+
    from idx k show "fst (pickup E self name ps s)"
      unfolding pk by simp
    from idx k show sent: "goals_sent (pickup E self name ps s) = take k (pickup_goals E self name ps)"
      unfolding pk by simp
    from a show "length (goals_sent (pickup E self name ps s)) = k"
      unfolding sent by simp
    show "distinct (goals_sent (pickup E self name ps s))"
      unfolding sent by (simp add: distinct_pickup_goals)
  }
  {
    assume a: "\<forall>c\<in>set (replies pick_stub (pickup_goals E self name ps) w). c \<noteq> 1"
    then have idx: "length (takeWhile (\<lambda>c. c \<noteq> 1) (replies pick_stub (pickup_goals E self name ps) w)) = 21"
      by (simp add: no_success_index)
    from idx show "\<not> fst (pickup E self name ps s)"
      unfolding pk by simp
    from idx show sent: "goals_sent (pickup E self name ps s) = pickup_goals E self name ps"
      unfolding pk by simp
    show "length (goals_sent (pickup E self name ps s)) = 21"
      unfolding sent by simp
    show "distinct (goals_sent (pickup E self name ps s))"
      unfolding sent by (simp add: distinct_pickup_goals)
  }
  {
    assume a: "1 \<le> k \<and> k \<le> 21 \<and>
      replies place_stub (place_goals F self name ps) v ! (k - 1) = 1 \<and>
      (\<forall>j<k - 1. replies place_stub (place_goals F self name ps) v ! j \<noteq> 1)"
    then have idx: "length (takeWhile (\<lambda>c. c \<noteq> 1) (replies place_stub (place_goals F self name ps) v)) = k - 1"
      by (intro first_success_index) auto
    from a have k: "k - 1 < 21" "Suc (k - 1) = k"
      by linarith+
    from idx k show "fst (place F self name ps t)"
      unfolding pl by simp
    from idx k show sent: "goals_sent (place F self name ps t) = take k (place_goals F self name ps)"
      unfolding pl by simp
    from a show "length (goals_sent (place F self name ps t)) = k"
      unfolding sent by simp
    show "distinct (goals_sent (place F self name ps t))"
      unfolding sent by (simp add: distinct_place_goals)
  }
  {
    assume a: "\<forall>c\<in>set (replies place_stub (place_goals F self name ps) v). c \<noteq> 1"
    then have idx: "length (takeWhile (\<lambda>c. c \<noteq> 1) (replies place_stub (place_goals F self name ps) v)) = 21"
      by (simp add: no_success_index)
    from idx show "\<not> fst (place F self name ps t)"
      unfolding pl by simp
    from idx show sent: "goals_sent (place F self name ps t) = place_goals F self name ps"
      unfolding pl by simp
    show "length (goals_sent (place F self name ps t)) = 21"
      unfolding sent by simp
    show "distinct (goals_sent (place F self name ps t))"
      unfolding sent by (simp add: distinct_place_goals)
  }
qed

lemma replies_pick_only:
  "replies (pick_only ok) (map (pickup_goal self name) cands) w
     = map (\<lambda>i. if i = ok then 1 else - 1) (map grasp_id cands)"
  by (induction cands) (simp_all add: pick_only_def pickup_goal_def)

lemma replies_place_only:
  "replies (place_only ok) (map (place_goal self name) cands) w
     = map (\<lambda>i. if i = ok then 1 else - 1) (map place_id cands)"
  by (induction cands) (simp_all add: place_only_def place_goal_def)

lemma replies_pick_only_goals:
  "replies (pick_only ok) (pickup_goals E self name ps) w
     = map (\<lambda>i. if i = ok then 1 else - 1) (''direct_overhead'' # tilted_ids)"
  unfolding pickup_goals_def replies_pick_only grasp_ids ..

lemma replies_place_only_goals:
  "replies (place_only ok) (place_goals E self name ps) w
     = map (\<lambda>i. if i = ok then 1 else - 1) (''direct_overhead'' # tilted_ids)"
  unfolding place_goals_def replies_place_only place_ids ..

theorem retry_sends_candidates_in_order_witness:
  "fst (pickup (pick_env (pick_only ''0.05+0.0'')) arm ''piece'' sample_pose (ArmPlanner_init ((), []))) \<and>
   goals_sent (pickup (pick_env (pick_only ''0.05+0.0'')) arm ''piece'' sample_pose (ArmPlanner_init ((), [])))
     = take 4 (pickup_goals (pick_env (pick_only ''0.05+0.0'')) arm ''piece'' sample_pose) \<and>
   \<not> fst (pickup (pick_env (pick_only ''none'')) arm ''piece'' sample_pose (ArmPlanner_init ((), []))) \<and>
   length (goals_sent (pickup (pick_env (pick_only ''none'')) arm ''piece'' sample_pose (ArmPlanner_init ((), [])))) = 21 \<and>
   fst (place (place_env (place_only ''0.05+0.0'')) arm ''piece'' sample_pose (ArmPlanner_init ((), []))) \<and>
   goals_sent (place (place_env (place_only ''0.05+0.0'')) arm ''piece'' sample_pose (ArmPlanner_init ((), [])))
     = take 4 (place_goals (place_env (place_only ''0.05+0.0'')) arm ''piece'' sample_pose) \<and>
   \<not> fst (place (place_env (place_only ''none'')) arm ''piece'' sample_pose (ArmPlanner_init ((), []))) \<and>
   length (goals_sent (place (place_env (place_only ''none'')) arm ''piece'' sample_pose (ArmPlanner_init ((), [])))) = 21"
proof -
  have e: "pickup_action (pick_env stub) = recording stub" "place_action (place_env stub') = recording stub'"
    for stub stub'
    by (simp_all add: pick_env_def place_env_def)
  have w: "world (ArmPlanner_init ((), [])) = ((), [])" for x :: "'a list"
    by (simp add: ArmPlanner_init_def)
  have codes: "map (\<lambda>i. if i = ''0.05+0.0'' then 1 else - 1) (''direct_overhead'' # tilted_ids)
      = [- 1, - 1, - 1, 1 :: int, - 1, - 1, - 1, - 1, - 1, - 1, - 1, - 1, - 1, - 1, - 1, - 1, - 1, - 1, - 1, - 1, - 1]"
    "map (\<lambda>i. if i = ''none'' then 1 else - 1) (''direct_overhead'' # tilted_ids)
      = [- 1, - 1, - 1, - 1 :: int, - 1, - 1, - 1, - 1, - 1, - 1, - 1, - 1, - 1, - 1, - 1, - 1, - 1, - 1, - 1, - 1, - 1]"
    unfolding tilted_ids_text by simp_all
  have three: "(\<forall>j<3. P j) = (P 0 \<and> P 1 \<and> P (2::nat))" for P
    by (auto simp: less_Suc_eq numeral_eq_Suc)
  have pick4: "(1::nat) \<le> 4 \<and> (4::nat) \<le> 21 \<and>
      replies (pick_only ''0.05+0.0'') (pickup_goals (pick_env (pick_only ''0.05+0.0'')) arm ''piece'' sample_pose) () ! (4 - 1) = 1 \<and>
      (\<forall>j<4 - 1. replies (pick_only ''0.05+0.0'') (pickup_goals (pick_env (pick_only ''0.05+0.0'')) arm ''piece'' sample_pose) () ! j \<noteq> 1)"
    unfolding replies_pick_only_goals codes by (simp add: three)
  have place4: "(1::nat) \<le> 4 \<and> (4::nat) \<le> 21 \<and>
      replies (place_only ''0.05+0.0'') (place_goals (place_env (place_only ''0.05+0.0'')) arm ''piece'' sample_pose) () ! (4 - 1) = 1 \<and>
      (\<forall>j<4 - 1. replies (place_only ''0.05+0.0'') (place_goals (place_env (place_only ''0.05+0.0'')) arm ''piece'' sample_pose) () ! j \<noteq> 1)"
    unfolding replies_place_only_goals codes by (simp add: three)
  have pick0: "\<forall>c\<in>set (replies (pick_only ''none'') (pickup_goals (pick_env (pick_only ''none'')) arm ''piece'' sample_pose) ()). c \<noteq> 1"
    unfolding replies_pick_only_goals codes by simp
  have place0: "\<forall>c\<in>set (replies (place_only ''none'') (place_goals (place_env (place_only ''none'')) arm ''piece'' sample_pose) ()). c \<noteq> 1"
    unfolding replies_place_only_goals codes by simp
  note ok = retry_sends_candidates_in_order [OF e(1) w e(2) w, where k = 4 and self = arm
        and name = "''piece''" and ps = sample_pose and pick_stub = "pick_only ''0.05+0.0''"
        and place_stub = "place_only ''0.05+0.0''"]
  note no = retry_sends_candidates_in_order [OF e(1) w e(2) w, where k = 1 and self = arm
        and name = "''piece''" and ps = sample_pose and pick_stub = "pick_only ''none''"
        and place_stub = "place_only ''none''"]
  from ok pick4 have a: "fst (pickup (pick_env (pick_only ''0.05+0.0'')) arm ''piece'' sample_pose (ArmPlanner_init ((), [])))"
    "goals_sent (pickup (pick_env (pick_only ''0.05+0.0'')) arm ''piece'' sample_pose (ArmPlanner_init ((), [])))
     = take 4 (pickup_goals (pick_env (pick_only ''0.05+0.0'')) arm ''piece'' sample_pose)"
    by blast+
  from ok place4 have b: "fst (place (place_env (place_only ''0.05+0.0'')) arm ''piece'' sample_pose (ArmPlanner_init ((), [])))"
    "goals_sent (place (place_env (place_only ''0.05+0.0'')) arm ''piece'' sample_pose (ArmPlanner_init ((), [])))
     = take 4 (place_goals (place_env (place_only ''0.05+0.0'')) arm ''piece'' sample_pose)"
    by blast+
  from no pick0 have c: "\<not> fst (pickup (pick_env (pick_only ''none'')) arm ''piece'' sample_pose (ArmPlanner_init ((), [])))"
    "length (goals_sent (pickup (pick_env (pick_only ''none'')) arm ''piece'' sample_pose (ArmPlanner_init ((), [])))) = 21"
    by blast+
  from no place0 have d: "\<not> fst (place (place_env (place_only ''none'')) arm ''piece'' sample_pose (ArmPlanner_init ((), [])))"
    "length (goals_sent (place (place_env (place_only ''none'')) arm ''piece'' sample_pose (ArmPlanner_init ((), [])))) = 21"
    by blast+
  from a b c d show ?thesis by blast
qed

section \<open>Generators and the caller's pose\<close>

lemma concat_map_product:
  "concat (map (\<lambda>p. map (f p) ys) ps) = map (\<lambda>py. f (fst py) (snd py)) (List.product ps ys)"
  by (induction ps) (simp_all add: comp_def)

lemma length_pitches_yaws [simp]: "length pitches = 4" "length yaws = 5"
  by (simp_all add: pitches_def yaws_def)

lemma set_orientation_twice [simp]:
  "set_orientation q (set_orientation q' ps) = set_orientation q ps"
  by (simp add: set_orientation_def)

lemma for_grasps_suspended:
  assumes "gen_g fr = Some g" "gen_yields fr = Suc n" "n \<le> 20"
  shows "fst (for_grasps qfe fr h) =
     map (\<lambda>py. read_grasp (h(grasp_pose g := set_orientation (qfe 0 (1.57 - fst py) (snd py)) (h (grasp_pose g))))
               (g\<lparr>grasp_id := str_float (fst py) @ ''+'' @ str_float (snd py),
                  grasp_quality := 1 - (1.25 * fst py) - \<bar>snd py\<bar> / 4\<rparr>))
         (drop n (List.product pitches yaws))"
  using assms
proof (induction "20 - n" arbitrary: fr g h n)
  case 0
  then have "n = 20" by simp
  with 0 show ?case
    by (subst for_grasps.simps) (simp add: grasp_next_def)
next
  case (Suc k)
  then have n: "n < 20" by simp
  let ?py = "List.product pitches yaws ! n"
  let ?g' = "g\<lparr>grasp_id := str_float (fst ?py) @ ''+'' @ str_float (snd ?py),
                  grasp_quality := 1 - (1.25 * fst ?py) - \<bar>snd ?py\<bar> / 4\<rparr>"
  let ?fr' = "fr\<lparr>gen_g := Some ?g', gen_yields := Suc n + 1\<rparr>"
  let ?h' = "h(grasp_pose g := set_orientation (qfe 0 (1.57 - fst ?py) (snd ?py)) (h (grasp_pose g)))"
  have nx: "grasp_next qfe fr h = (Some ?g', ?fr', ?h')"
    using Suc.prems n by (simp add: grasp_next_def Let_def)
  have dr: "drop n (List.product pitches yaws) = ?py # drop (Suc n) (List.product pitches yaws)"
    using n by (simp add: Cons_nth_drop_Suc)
  have IH: "fst (for_grasps qfe ?fr' ?h') =
     map (\<lambda>py. read_grasp (?h'(grasp_pose ?g' := set_orientation (qfe 0 (1.57 - fst py) (snd py)) (?h' (grasp_pose ?g'))))
               (?g'\<lparr>grasp_id := str_float (fst py) @ ''+'' @ str_float (snd py),
                  grasp_quality := 1 - (1.25 * fst py) - \<bar>snd py\<bar> / 4\<rparr>))
         (drop (Suc n) (List.product pitches yaws))"
    using Suc.hyps(2) n by (intro Suc.hyps(1)) simp_all
  have "fst (for_grasps qfe fr h) = read_grasp ?h' ?g' # fst (for_grasps qfe ?fr' ?h')"
    by (subst for_grasps.simps) (simp only: nx prod.case option.case fst_conv)
  also have "\<dots> = read_grasp ?h' ?g' #
     map (\<lambda>py. read_grasp (?h'(grasp_pose ?g' := set_orientation (qfe 0 (1.57 - fst py) (snd py)) (?h' (grasp_pose ?g'))))
               (?g'\<lparr>grasp_id := str_float (fst py) @ ''+'' @ str_float (snd py),
                  grasp_quality := 1 - (1.25 * fst py) - \<bar>snd py\<bar> / 4\<rparr>))
         (drop (Suc n) (List.product pitches yaws))"
    by (simp only: IH)
  finally show ?case
    unfolding dr by (simp add: read_grasp_def)
qed

lemma for_grasps_reads:
  "fst (for_grasps qfe (getGrasps_call r) h) = getGrasps qfe (h r)"
proof -
  let ?g = "\<lparr>grasp_id = ''direct_overhead'',
                    pre_grasp_posture = getGripperPosture GRIPPER_OPEN,
                    grasp_posture = getGripperPosture GRIPPER_CLOSED,
                    grasp_pose = r,
                    grasp_quality = 1,
                    grasp_approach = getGripperTranslation 0.05 0.15 1,
                    grasp_retreat = getGripperTranslation 0.05 0.15 (-1)\<rparr>"
  let ?fr = "(getGrasps_call r)\<lparr>gen_g := Some ?g, gen_yields := 1\<rparr>"
  let ?h = "h(r := set_orientation (qfe 0 1.57 0) (h r))"
  have nx: "grasp_next qfe (getGrasps_call r) h = (Some ?g, ?fr, ?h)"
    by (simp add: grasp_next_def getGrasps_call_def Let_def)
  have rest: "fst (for_grasps qfe ?fr ?h) =
     map (\<lambda>py. read_grasp (?h(grasp_pose ?g := set_orientation (qfe 0 (1.57 - fst py) (snd py)) (?h (grasp_pose ?g))))
               (?g\<lparr>grasp_id := str_float (fst py) @ ''+'' @ str_float (snd py),
                  grasp_quality := 1 - (1.25 * fst py) - \<bar>snd py\<bar> / 4\<rparr>))
         (drop 0 (List.product pitches yaws))"
    by (rule for_grasps_suspended) simp_all
  have "fst (for_grasps qfe (getGrasps_call r) h) = read_grasp ?h ?g # fst (for_grasps qfe ?fr ?h)"
    by (subst for_grasps.simps) (simp only: nx prod.case option.case fst_conv)
  then show ?thesis
    unfolding rest by (simp add: read_grasp_def getGrasps_def Let_def concat_map_product)
qed

lemma for_places_suspended:
  assumes "pgen_l fr = Some g" "pgen_yields fr = Suc n" "n \<le> 20"
  shows "fst (for_places qfe fr h) =
     map (\<lambda>py. read_place (h(place_pose g := set_orientation (qfe 0 (1.57 - fst py) (snd py)) (h (place_pose g))))
               (g\<lparr>place_id := str_float (fst py) @ ''+'' @ str_float (snd py)\<rparr>))
         (drop n (List.product pitches yaws))"
  using assms
proof (induction "20 - n" arbitrary: fr g h n)
  case 0
  then have "n = 20" by simp
  with 0 show ?case
    by (subst for_places.simps) (simp add: place_next_def)
next
  case (Suc k)
  then have n: "n < 20" by simp
  let ?py = "List.product pitches yaws ! n"
  let ?g' = "g\<lparr>place_id := str_float (fst ?py) @ ''+'' @ str_float (snd ?py)\<rparr>"
  let ?fr' = "fr\<lparr>pgen_l := Some ?g', pgen_yields := Suc n + 1\<rparr>"
  let ?h' = "h(place_pose g := set_orientation (qfe 0 (1.57 - fst ?py) (snd ?py)) (h (place_pose g)))"
  have nx: "place_next qfe fr h = (Some ?g', ?fr', ?h')"
    using Suc.prems n by (simp add: place_next_def Let_def)
  have dr: "drop n (List.product pitches yaws) = ?py # drop (Suc n) (List.product pitches yaws)"
    using n by (simp add: Cons_nth_drop_Suc)
  have IH: "fst (for_places qfe ?fr' ?h') =
     map (\<lambda>py. read_place (?h'(place_pose ?g' := set_orientation (qfe 0 (1.57 - fst py) (snd py)) (?h' (place_pose ?g'))))
               (?g'\<lparr>place_id := str_float (fst py) @ ''+'' @ str_float (snd py)\<rparr>))
         (drop (Suc n) (List.product pitches yaws))"
    using Suc.hyps(2) n by (intro Suc.hyps(1)) simp_all
  have "fst (for_places qfe fr h) = read_place ?h' ?g' # fst (for_places qfe ?fr' ?h')"
    by (subst for_places.simps) (simp only: nx prod.case option.case fst_conv)
  also have "\<dots> = read_place ?h' ?g' #
     map (\<lambda>py. read_place (?h'(place_pose ?g' := set_orientation (qfe 0 (1.57 - fst py) (snd py)) (?h' (place_pose ?g'))))
               (?g'\<lparr>place_id := str_float (fst py) @ ''+'' @ str_float (snd py)\<rparr>))
         (drop (Suc n) (List.product pitches yaws))"
    by (simp only: IH)
  finally show ?case
    unfolding dr by (simp add: read_place_def)
qed

lemma for_places_reads:
  "fst (for_places qfe (getPlaceLocations_call r) h) = getPlaceLocations qfe (h r)"
proof -
  let ?g = "\<lparr>place_id = ''direct_overhead'',
                    place_pose = r,
                    place_approach = getGripperTranslation 0.05 0.15 1,
                    place_retreat = getGripperTranslation 0.05 0.15 (-1),
                    post_place_posture = getGripperPosture GRIPPER_OPEN\<rparr>"
  let ?fr = "(getPlaceLocations_call r)\<lparr>pgen_l := Some ?g, pgen_yields := 1\<rparr>"
  let ?h = "h(r := set_orientation (qfe 0 1.57 0) (h r))"
  have nx: "place_next qfe (getPlaceLocations_call r) h = (Some ?g, ?fr, ?h)"
    by (simp add: place_next_def getPlaceLocations_call_def Let_def)
  have rest: "fst (for_places qfe ?fr ?h) =
     map (\<lambda>py. read_place (?h(place_pose ?g := set_orientation (qfe 0 (1.57 - fst py) (snd py)) (?h (place_pose ?g))))
               (?g\<lparr>place_id := str_float (fst py) @ ''+'' @ str_float (snd py)\<rparr>))
         (drop 0 (List.product pitches yaws))"
    by (rule for_places_suspended) simp_all
  have "fst (for_places qfe (getPlaceLocations_call r) h) = read_place ?h ?g # fst (for_places qfe ?fr ?h)"
    by (subst for_places.simps) (simp only: nx prod.case option.case fst_conv)
  then show ?thesis
    unfolding rest by (simp add: read_place_def getPlaceLocations_def Let_def concat_map_product)
qed

lemma last_pair: "List.product pitches yaws ! 19 = (0.4, 1.57)"
  by (simp add: pitches_def yaws_def)

lemma for_grasps_store_suspended:
  assumes "gen_g fr = Some g" "gen_yields fr = Suc n" "n < 20"
  shows "snd (for_grasps qfe fr h) =
     h(grasp_pose g := set_orientation (qfe 0 (1.57 - 0.4) 1.57) (h (grasp_pose g)))"
  using assms
proof (induction "19 - n" arbitrary: fr g h n)
  case 0
  then have n: "n = 19" by simp
  let ?py = "List.product pitches yaws ! n"
  let ?g' = "g\<lparr>grasp_id := str_float (fst ?py) @ ''+'' @ str_float (snd ?py),
                  grasp_quality := 1 - (1.25 * fst ?py) - \<bar>snd ?py\<bar> / 4\<rparr>"
  let ?fr' = "fr\<lparr>gen_g := Some ?g', gen_yields := Suc n + 1\<rparr>"
  let ?h' = "h(grasp_pose g := set_orientation (qfe 0 (1.57 - fst ?py) (snd ?py)) (h (grasp_pose g)))"
  have nx: "grasp_next qfe fr h = (Some ?g', ?fr', ?h')"
    using 0 n by (simp add: grasp_next_def Let_def)
  have stop: "grasp_next qfe ?fr' ?h' = (None, ?fr', ?h')"
    using n by (simp add: grasp_next_def)
  have "snd (for_grasps qfe fr h) = snd (for_grasps qfe ?fr' ?h')"
    by (subst for_grasps.simps) (simp only: nx prod.case option.case snd_conv)
  also have "\<dots> = ?h'"
    by (subst for_grasps.simps) (simp only: stop prod.case option.case snd_conv)
  finally show ?case
    by (simp add: n last_pair)
next
  case (Suc k)
  then have n: "n < 19" by simp
  let ?py = "List.product pitches yaws ! n"
  let ?g' = "g\<lparr>grasp_id := str_float (fst ?py) @ ''+'' @ str_float (snd ?py),
                  grasp_quality := 1 - (1.25 * fst ?py) - \<bar>snd ?py\<bar> / 4\<rparr>"
  let ?fr' = "fr\<lparr>gen_g := Some ?g', gen_yields := Suc n + 1\<rparr>"
  let ?h' = "h(grasp_pose g := set_orientation (qfe 0 (1.57 - fst ?py) (snd ?py)) (h (grasp_pose g)))"
  have nx: "grasp_next qfe fr h = (Some ?g', ?fr', ?h')"
    using Suc.prems n by (simp add: grasp_next_def Let_def)
  have IH: "snd (for_grasps qfe ?fr' ?h') =
     ?h'(grasp_pose ?g' := set_orientation (qfe 0 (1.57 - 0.4) 1.57) (?h' (grasp_pose ?g')))"
    using Suc.hyps(2) n by (intro Suc.hyps(1)) auto
  have "snd (for_grasps qfe fr h) = snd (for_grasps qfe ?fr' ?h')"
    by (subst for_grasps.simps) (simp only: nx prod.case option.case snd_conv)
  then show ?case
    unfolding IH by simp
qed

lemma for_grasps_store:
  "snd (for_grasps qfe (getGrasps_call r) h) = h(r := set_orientation (qfe 0 (1.57 - 0.4) 1.57) (h r))"
proof -
  let ?g = "\<lparr>grasp_id = ''direct_overhead'',
                    pre_grasp_posture = getGripperPosture GRIPPER_OPEN,
                    grasp_posture = getGripperPosture GRIPPER_CLOSED,
                    grasp_pose = r,
                    grasp_quality = 1,
                    grasp_approach = getGripperTranslation 0.05 0.15 1,
                    grasp_retreat = getGripperTranslation 0.05 0.15 (-1)\<rparr>"
  let ?fr = "(getGrasps_call r)\<lparr>gen_g := Some ?g, gen_yields := 1\<rparr>"
  let ?h = "h(r := set_orientation (qfe 0 1.57 0) (h r))"
  have nx: "grasp_next qfe (getGrasps_call r) h = (Some ?g, ?fr, ?h)"
    by (simp add: grasp_next_def getGrasps_call_def Let_def)
  have rest: "snd (for_grasps qfe ?fr ?h) =
     ?h(grasp_pose ?g := set_orientation (qfe 0 (1.57 - 0.4) 1.57) (?h (grasp_pose ?g)))"
    by (rule for_grasps_store_suspended [where n = 0]) simp_all
  have "snd (for_grasps qfe (getGrasps_call r) h) = snd (for_grasps qfe ?fr ?h)"
    by (subst for_grasps.simps) (simp only: nx prod.case option.case snd_conv)
  then show ?thesis
    unfolding rest by simp
qed

lemma for_places_store_suspended:
  assumes "pgen_l fr = Some g" "pgen_yields fr = Suc n" "n < 20"
  shows "snd (for_places qfe fr h) =
     h(place_pose g := set_orientation (qfe 0 (1.57 - 0.4) 1.57) (h (place_pose g)))"
  using assms
proof (induction "19 - n" arbitrary: fr g h n)
  case 0
  then have n: "n = 19" by simp
  let ?py = "List.product pitches yaws ! n"
  let ?g' = "g\<lparr>place_id := str_float (fst ?py) @ ''+'' @ str_float (snd ?py)\<rparr>"
  let ?fr' = "fr\<lparr>pgen_l := Some ?g', pgen_yields := Suc n + 1\<rparr>"
  let ?h' = "h(place_pose g := set_orientation (qfe 0 (1.57 - fst ?py) (snd ?py)) (h (place_pose g)))"
  have nx: "place_next qfe fr h = (Some ?g', ?fr', ?h')"
    using 0 n by (simp add: place_next_def Let_def)
  have stop: "place_next qfe ?fr' ?h' = (None, ?fr', ?h')"
    using n by (simp add: place_next_def)
  have "snd (for_places qfe fr h) = snd (for_places qfe ?fr' ?h')"
    by (subst for_places.simps) (simp only: nx prod.case option.case snd_conv)
  also have "\<dots> = ?h'"
    by (subst for_places.simps) (simp only: stop prod.case option.case snd_conv)
  finally show ?case
    by (simp add: n last_pair)
next
  case (Suc k)
  then have n: "n < 19" by simp
  let ?py = "List.product pitches yaws ! n"
  let ?g' = "g\<lparr>place_id := str_float (fst ?py) @ ''+'' @ str_float (snd ?py)\<rparr>"
  let ?fr' = "fr\<lparr>pgen_l := Some ?g', pgen_yields := Suc n + 1\<rparr>"
  let ?h' = "h(place_pose g := set_orientation (qfe 0 (1.57 - fst ?py) (snd ?py)) (h (place_pose g)))"
  have nx: "place_next qfe fr h = (Some ?g', ?fr', ?h')"
    using Suc.prems n by (simp add: place_next_def Let_def)
  have IH: "snd (for_places qfe ?fr' ?h') =
     ?h'(place_pose ?g' := set_orientation (qfe 0 (1.57 - 0.4) 1.57) (?h' (place_pose ?g')))"
    using Suc.hyps(2) n by (intro Suc.hyps(1)) auto
  have "snd (for_places qfe fr h) = snd (for_places qfe ?fr' ?h')"
    by (subst for_places.simps) (simp only: nx prod.case option.case snd_conv)
  then show ?case
    unfolding IH by simp
qed

lemma for_places_store:
  "snd (for_places qfe (getPlaceLocations_call r) h) = h(r := set_orientation (qfe 0 (1.57 - 0.4) 1.57) (h r))"
proof -
  let ?g = "\<lparr>place_id = ''direct_overhead'',
                    place_pose = r,
                    place_approach = getGripperTranslation 0.05 0.15 1,
                    place_retreat = getGripperTranslation 0.05 0.15 (-1),
                    post_place_posture = getGripperPosture GRIPPER_OPEN\<rparr>"
  let ?fr = "(getPlaceLocations_call r)\<lparr>pgen_l := Some ?g, pgen_yields := 1\<rparr>"
  let ?h = "h(r := set_orientation (qfe 0 1.57 0) (h r))"
  have nx: "place_next qfe (getPlaceLocations_call r) h = (Some ?g, ?fr, ?h)"
    by (simp add: place_next_def getPlaceLocations_call_def Let_def)
  have rest: "snd (for_places qfe ?fr ?h) =
     ?h(place_pose ?g := set_orientation (qfe 0 (1.57 - 0.4) 1.57) (?h (place_pose ?g)))"
    by (rule for_places_store_suspended [where n = 0]) simp_all
  have "snd (for_places qfe (getPlaceLocations_call r) h) = snd (for_places qfe ?fr ?h)"
    by (subst for_places.simps) (simp only: nx prod.case option.case snd_conv)
  then show ?thesis
    unfolding rest by simp
qed

lemma getGrasps_ignores_orientation: "getGrasps qfe (set_orientation q ps) = getGrasps qfe ps"
  by (simp add: getGrasps_def)

lemma getPlaceLocations_ignores_orientation:
  "getPlaceLocations qfe (set_orientation q ps) = getPlaceLocations qfe ps"
  by (simp add: getPlaceLocations_def)

lemma sin_overhead: "sin (157 / 200 :: real) \<noteq> 0"
proof -
  have "(157 / 200 :: real) < pi"
    using pi_ge_two by simp
  then have "0 < sin (157 / 200 :: real)"
    by (intro sin_gt_zero) simp_all
  then show ?thesis by simp
qed

text \<open>
  C7 as stated fails: one step of the grasp generator on a pose object with the
  orientation \<open>(0, 0, 0, 1)\<close> leaves a different pose in that object.
\<close>

theorem input_pose_is_overwritten:
  "snd (snd (grasp_next tf_quaternion_from_euler (getGrasps_call 0) sample_store)) 0 \<noteq> sample_store 0"
proof -
  have "q_y (orientation (pose (snd (snd (grasp_next tf_quaternion_from_euler (getGrasps_call 0) sample_store)) 0)))
      = sin (157 / 200)"
    by (simp add: grasp_next_def getGrasps_call_def Let_def set_orientation_def tf_quaternion_from_euler_def
        sample_store_def)
  moreover have "q_y (orientation (pose (sample_store 0))) = 0"
    by (simp add: sample_store_def sample_pose_def)
  ultimately show ?thesis
    using sin_overhead by metis
qed

lemma first_pair: "List.product pitches yaws ! 0 = (0.05, -1.57)"
  by (simp add: pitches_def yaws_def)

lemma kept_grasp_changes:
  "map_option (\<lambda>ab. (grasp_id (fst ab), grasp_pose (fst ab), grasp_id (snd ab), grasp_pose (snd ab)))
       (kept_grasp qfe r h) =
     Some (str_float 0.05 @ ''+'' @ str_float (-1.57),
           set_orientation (qfe 0 (1.57 - 0.05) (-1.57)) (h r),
           str_float 0.05 @ ''+'' @ str_float (-1.57),
           set_orientation (qfe 0 1.57 0) (h r))"
  by (simp add: kept_grasp_def grasp_next_def getGrasps_call_def Let_def read_grasp_def first_pair)

lemma kept_place_changes:
  "map_option (\<lambda>ab. (place_id (fst ab), place_pose (fst ab), place_id (snd ab), place_pose (snd ab)))
       (kept_place qfe r h) =
     Some (str_float 0.05 @ ''+'' @ str_float (-1.57),
           set_orientation (qfe 0 (1.57 - 0.05) (-1.57)) (h r),
           str_float 0.05 @ ''+'' @ str_float (-1.57),
           set_orientation (qfe 0 1.57 0) (h r))"
  by (simp add: kept_place_def place_next_def getPlaceLocations_call_def Let_def read_place_def first_pair)

text \<open>
  C7, as the code has it. Read at each yield, the candidates of either generator are the
  list \<open>getGrasps\<close> (or \<open>getPlaceLocations\<close>) of the pose found in the caller's
  object, whatever else the store holds; that list ignores the orientation of the input;
  and a second loop over a new generator on the same object reads the same list again.
  The caller's object is written to: the first step sets its orientation to the overhead
  one and a full loop leaves the orientation of the last candidate, position and header
  untouched. Every candidate points at that object, so a candidate that a consumer
  keeps shows the orientation written by the latest step of any generator on the object.
\<close>

theorem generators_by_value_and_by_reference:
  "fst (for_grasps qfe (getGrasps_call r) h) = getGrasps qfe (h r) \<and>
   fst (for_places qfe (getPlaceLocations_call r) h) = getPlaceLocations qfe (h r) \<and>
   fst (for_grasps qfe (getGrasps_call r) (snd (for_grasps qfe (getGrasps_call r) h)))
     = fst (for_grasps qfe (getGrasps_call r) h) \<and>
   fst (for_places qfe (getPlaceLocations_call r) (snd (for_places qfe (getPlaceLocations_call r) h)))
     = fst (for_places qfe (getPlaceLocations_call r) h) \<and>
   getGrasps qfe (set_orientation q ps) = getGrasps qfe ps \<and>
   getPlaceLocations qfe (set_orientation q ps) = getPlaceLocations qfe ps \<and>
   snd (snd (grasp_next qfe (getGrasps_call r) h)) = h(r := set_orientation (qfe 0 1.57 0) (h r)) \<and>
   snd (snd (place_next qfe (getPlaceLocations_call r) h)) = h(r := set_orientation (qfe 0 1.57 0) (h r)) \<and>
   snd (for_grasps qfe (getGrasps_call r) h) = h(r := set_orientation (qfe 0 (1.57 - 0.4) 1.57) (h r)) \<and>
   snd (for_places qfe (getPlaceLocations_call r) h) = h(r := set_orientation (qfe 0 (1.57 - 0.4) 1.57) (h r)) \<and>
   map_option (\<lambda>ab. (grasp_id (fst ab), grasp_pose (fst ab), grasp_id (snd ab), grasp_pose (snd ab)))
       (kept_grasp qfe r h) =
     Some (str_float 0.05 @ ''+'' @ str_float (-1.57),
           set_orientation (qfe 0 (1.57 - 0.05) (-1.57)) (h r),
           str_float 0.05 @ ''+'' @ str_float (-1.57),
           set_orientation (qfe 0 1.57 0) (h r)) \<and>
   map_option (\<lambda>ab. (place_id (fst ab), place_pose (fst ab), place_id (snd ab), place_pose (snd ab)))
       (kept_place qfe r h) =
     Some (str_float 0.05 @ ''+'' @ str_float (-1.57),
           set_orientation (qfe 0 (1.57 - 0.05) (-1.57)) (h r),
           str_float 0.05 @ ''+'' @ str_float (-1.57),
           set_orientation (qfe 0 1.57 0) (h r))"
proof -
  have again_g: "fst (for_grasps qfe (getGrasps_call r) (snd (for_grasps qfe (getGrasps_call r) h)))
     = fst (for_grasps qfe (getGrasps_call r) h)"
    unfolding for_grasps_reads for_grasps_store by (simp add: getGrasps_ignores_orientation)
  have again_p: "fst (for_places qfe (getPlaceLocations_call r) (snd (for_places qfe (getPlaceLocations_call r) h)))
     = fst (for_places qfe (getPlaceLocations_call r) h)"
    unfolding for_places_reads for_places_store by (simp add: getPlaceLocations_ignores_orientation)
  have first_g: "snd (snd (grasp_next qfe (getGrasps_call r) h)) = h(r := set_orientation (qfe 0 1.57 0) (h r))"
    by (simp add: grasp_next_def getGrasps_call_def Let_def)
  have first_p: "snd (snd (place_next qfe (getPlaceLocations_call r) h)) = h(r := set_orientation (qfe 0 1.57 0) (h r))"
    by (simp add: place_next_def getPlaceLocations_call_def Let_def)
  show ?thesis
    using for_grasps_reads [of qfe r h] for_places_reads [of qfe r h] again_g again_p
      getGrasps_ignores_orientation [of qfe q ps] getPlaceLocations_ignores_orientation [of qfe q ps]
      first_g first_p for_grasps_store [of qfe r h] for_places_store [of qfe r h]
      kept_grasp_changes [of qfe r h] kept_place_changes [of qfe r h]
    by blast
qed

section \<open>Executing a move\<close>

lemma tucked_constraints:
  "\<exists>cs. joint_constraints_of joint_names joints_tucked tol = Inr cs"
  by (simp add: joint_names_def joints_tucked_def)

lemma tuck_ok: "\<exists>c. fst (tuck E s) = Inr c"
  using tucked_constraints [of "0.01"]
  by (auto simp: tuck_def moveToJointPosition_def Let_def)

lemma tuck_fields [simp]:
  "success (snd (tuck E s)) = success s"
  "collision (snd (tuck E s)) = collision s"
  "attached (snd (tuck E s)) = attached s"
  "rosout (snd (tuck E s)) = rosout s"
  by (simp_all add: tuck_def moveToJointPosition_def Let_def split: sum.splits)

text \<open>
  \<^verbatim>\<open>tuck\<close> sends one goal to the motion server: the seven arm joints at their tucked
  positions, each within 0.01, for the group \<^verbatim>\<open>Arm\<close>. Its result is the code the server
  answers with, which no caller reads.
\<close>

lemma tuck_goal:
  fixes E :: "'w env" and s :: "'w node"
  defines "g \<equiv>
     \<lparr>goal_constraints =
        [[\<lparr>joint_name = ''arm_lift_joint'', jc_position = 0,
           tolerance_above = 0.01, tolerance_below = 0.01, weight = 1\<rparr>,
          \<lparr>joint_name = ''arm_shoulder_pan_joint'', jc_position = - 1.57,
           tolerance_above = 0.01, tolerance_below = 0.01, weight = 1\<rparr>,
          \<lparr>joint_name = ''arm_upperarm_roll_joint'', jc_position = 0,
           tolerance_above = 0.01, tolerance_below = 0.01, weight = 1\<rparr>,
          \<lparr>joint_name = ''arm_shoulder_lift_joint'', jc_position = - 1.7,
           tolerance_above = 0.01, tolerance_below = 0.01, weight = 1\<rparr>,
          \<lparr>joint_name = ''arm_elbow_flex_joint'', jc_position = 1.7,
           tolerance_above = 0.01, tolerance_below = 0.01, weight = 1\<rparr>,
          \<lparr>joint_name = ''arm_wrist_flex_joint'', jc_position = 1.57,
           tolerance_above = 0.01, tolerance_below = 0.01, weight = 1\<rparr>,
          \<lparr>joint_name = ''arm_wrist_roll_joint'', jc_position = - 0.066472500808377785,
           tolerance_above = 0.01, tolerance_below = 0.01, weight = 1\<rparr>]],
      mg_group_name = ''Arm'', num_planning_attempts = 1, mg_allowed_planning_time = 15,
      mg_plan_only = False, look_around = False, replan = False\<rparr>"
  shows "tuck E s = (Inr (fst (move_group_action E g (world s))),
                     s\<lparr>world := snd (move_group_action E g (world s))\<rparr>)"
  by (simp add: g_def tuck_def moveToJointPosition_def Let_def joint_names_def joints_tucked_def
      ArmPlanner_group_def PLAN_ONLY_def)

lemma then_return_tuck [simp]: "then_return (tuck E s) v = (Inr v, snd (tuck E s))"
  using tuck_ok [of E s] by (auto simp: then_return_def)

lemma abort_move_eq:
  "abort_move E msg s = (Inr None, snd (tuck E ((rospy_log ERROR msg s)\<lparr>success := False\<rparr>)))"
  by (simp add: abort_move_def)

lemma abort_move_fields [simp]:
  "fst (abort_move E msg s) = Inr None"
  "success (snd (abort_move E msg s)) = False"
  "rosout (snd (abort_move E msg s)) = rosout s @ [(ERROR, msg)]"
  "collision (snd (abort_move E msg s)) = collision s"
  by (simp_all add: abort_move_eq rospy_log_def)

lemma execute_None_sets_flag:
  assumes ex: "execute E cu mv board s = Some (Inr None, s')"
  shows "success s' = False"
proof -
  let ?ct = "fst (toPosition board (drop 2 mv))" and ?rt = "snd (toPosition board (drop 2 mv))"
  let ?cf = "fst (toPosition board (take 2 mv))" and ?rf = "snd (toPosition board (take 2 mv))"
  have primary: "success s' = False"
    if fr: "getPiece board ?cf ?rf = Some f"
      and run: "(move_piece E cu (pose f) (getPose cu ?ct ?rt board (p_z (position (pose f)))) s1 \<bind>
         (\<lambda>moved. if \<not> fst moved then Some (abort_move E ''Failed to move my piece'' (snd moved))
            else (case castling_extras cu mv of
                          None \<Rightarrow> Some (Inr (snd moved))
                        | Some extra_move \<Rightarrow>
                            execute E cu extra_move board (snd moved) \<bind>
                            (\<lambda>r. case fst r of
                                Inl e \<Rightarrow> Some (Inl (Inl e, snd r))
                              | Inr result \<Rightarrow>
                                  if result = None
                                  then Some (Inr (rospy_log ERROR ''Failed to carry out castling extra'' (snd r)))
                                  else Some (Inr (snd r)))) \<bind>
                 (\<lambda>extra. case extra of
                       Inl early \<Rightarrow> Some early
                     | Inr s4 \<Rightarrow> Some (then_return (tuck E s4) (Some (getPose cu ?ct ?rt board (p_z (position (pose f))))))))) = Some (Inr None, s')"
    for f s1
  proof -
    from run obtain moved where mv: "move_piece E cu (pose f) (getPose cu ?ct ?rt board (p_z (position (pose f)))) s1 = Some moved"
      and rest: "(if \<not> fst moved then Some (abort_move E ''Failed to move my piece'' (snd moved))
            else (case castling_extras cu mv of
                          None \<Rightarrow> Some (Inr (snd moved))
                        | Some extra_move \<Rightarrow>
                            execute E cu extra_move board (snd moved) \<bind>
                            (\<lambda>r. case fst r of
                                Inl e \<Rightarrow> Some (Inl (Inl e, snd r))
                              | Inr result \<Rightarrow>
                                  if result = None
                                  then Some (Inr (rospy_log ERROR ''Failed to carry out castling extra'' (snd r)))
                                  else Some (Inr (snd r)))) \<bind>
                 (\<lambda>extra. case extra of
                       Inl early \<Rightarrow> Some early
                     | Inr s4 \<Rightarrow> Some (then_return (tuck E s4) (Some (getPose cu ?ct ?rt board (p_z (position (pose f)))))))) = Some (Inr None, s')"
      by (auto simp: bind_eq_Some_conv)
    show ?thesis
    proof (cases "fst moved")
      case False
      with rest have "abort_move E ''Failed to move my piece'' (snd moved) = (Inr None, s')"
        by simp
      then show ?thesis
        by (metis abort_move_fields(2) snd_conv)
    next
      case True
      with rest obtain extra where
        extra: "(case castling_extras cu mv of
                          None \<Rightarrow> Some (Inr (snd moved))
                        | Some extra_move \<Rightarrow>
                            execute E cu extra_move board (snd moved) \<bind>
                            (\<lambda>r. case fst r of
                                Inl e \<Rightarrow> Some (Inl (Inl e, snd r))
                              | Inr result \<Rightarrow>
                                  if result = None
                                  then Some (Inr (rospy_log ERROR ''Failed to carry out castling extra'' (snd r)))
                                  else Some (Inr (snd r)))) = Some extra"
        and fin: "(case extra of
                       Inl early \<Rightarrow> Some early
                     | Inr s4 \<Rightarrow> Some (then_return (tuck E s4) (Some (getPose cu ?ct ?rt board (p_z (position (pose f))))))) = Some (Inr None, s')"
        by (auto simp: bind_eq_Some_conv simp del: then_return_tuck)
      show ?thesis
      proof (cases extra)
        case (Inr s4)
        with fin show ?thesis by simp
      next
        case (Inl early)
        with fin have early: "early = (Inr None, s')" by simp
        have "\<exists>e. fst early = Inl e"
        proof (cases "castling_extras cu mv")
          case None
          with extra Inl show ?thesis by simp
        next
          case em: (Some extra_move)
          show ?thesis
          proof (cases "execute E cu extra_move board (snd moved)")
            case None
            with extra em show ?thesis by simp
          next
            case (Some r)
            with extra em Inl show ?thesis
              by (cases "fst r") (auto split: if_splits)
          qed
        qed
        with early show ?thesis by simp
      qed
    qed
  qed
  show ?thesis
  proof (cases "getPiece board ?cf ?rf")
    case None
    with ex show ?thesis
      by (subst (asm) execute.simps) (simp add: Let_def split: option.splits)
  next
    case fr: (Some f)
    show ?thesis
    proof (cases "getPiece board ?ct ?rt")
      case None
      with ex fr show ?thesis
        by (subst (asm) execute.simps) (simp add: Let_def primary [OF fr])
    next
      case (Some t)
      show ?thesis
      proof (cases "move_piece E cu (pose t) (off_board_pose cu f) s")
        case None
        with ex fr Some show ?thesis
          by (subst (asm) execute.simps) (simp add: Let_def)
      next
        case moved: (Some m)
        show ?thesis
        proof (cases "fst m")
          case False
          with ex fr Some moved have "abort_move E ''Failed to move captured piece'' (snd m) = (Inr None, s')"
            by (subst (asm) execute.simps) (simp add: Let_def)
          then show ?thesis
            by (metis abort_move_fields(2) snd_conv)
        next
          case True
          with ex fr Some moved show ?thesis
            by (subst (asm) execute.simps) (simp add: Let_def primary [OF fr])
        qed
      qed
    qed
  qed
qed

section \<open>Runs on the test bench\<close>

lemma bench_fields [simp]:
  "quaternion_from_euler (bench_env a b) = tf_quaternion_from_euler"
  "time_now (bench_env a b) = clock"
  "sleep (bench_env a b) = (\<lambda>d w. w\<lparr>clock := clock w + d\<rparr>)"
  "publish (bench_env a b) = (\<lambda>ob w. w\<lparr>pending := pending w @ [ob]\<rparr>)"
  "scene_feed (bench_env a b) = (\<lambda>w. (if pending w = [] then [] else [snapshot_of (pending w)], w\<lparr>pending := []\<rparr>))"
  "transformPose (bench_env a b) = (\<lambda>frame ps w. ps\<lparr>header := (header ps)\<lparr>frame_id := frame\<rparr>\<rparr>)"
  "pickup_action (bench_env a b) = (\<lambda>g w. (a g w, w\<lparr>picks := picks w @ [g]\<rparr>))"
  "place_action (bench_env a b) = (\<lambda>g w. (b g w, w\<lparr>places := places w @ [g]\<rparr>))"
  "move_group_action (bench_env a b) = (\<lambda>g w. (1, w\<lparr>motions := motions w @ [g]\<rparr>))"
  by (simp_all add: bench_env_def)

lemmas run_defs = move_piece_def remove_def addBox_def addCube_def Let_def wait_removed.simps wait_added.simps
  deliver_def pub_publish_def rospy_log_def rospy_sleep_def
  ArmPlanner_init_def bench0_def getKnownCollisionObjects_def sceneCb_def scene_event_def attached_event_def snapshot_of_def
  pickup_def place_def getGrasps_def getPlaceLocations_def pitches_def yaws_def board_pose_def
  sample_board_def sample_toPosition_def sample_cu_def outcome_def abort_move_def tuck_def moveToJointPosition_def
  joint_names_def joints_tucked_def then_return_def accept_all_def reject_all_def accept_first_pick_def getPose_def piece_at_def off_board_pose_def

lemma Some_pair_the:
  "map_option fst x = Some a \<Longrightarrow> x = Some (a, snd (the x))"
  by (cases x) auto

lemma wait_added_stuck:
  assumes silent: "\<And>w. fst (scene_feed E w) = []"
    and unknown: "co_id ob \<notin> set (collision s)"
  shows "wait_added E ob s = None"
proof (cases "wait_added E ob s")
  case (Some y)
  have "E = E \<longrightarrow> co_id ob \<in> set (collision s)"
  proof (rule wait_added.raw_induct
      [where P = "\<lambda>E' ob' s' y'. E' = E \<longrightarrow> co_id ob' \<in> set (collision s')", OF _ Some])
    fix wa E2 ob2 y2 and s2 :: "'a node"
    assume IH: "\<And>E' ob' s' y'. wa E' ob' s' = Some y' \<Longrightarrow> E' = E \<longrightarrow> co_id ob' \<in> set (collision s')"
      and body: "(if \<not> co_id ob2 \<in> set (getKnownCollisionObjects (deliver E2 s2))
          then wa E2 ob2 (rospy_sleep E2 1 (pub_publish E2 ob2
                (rospy_log DEBUG ''Waiting for object to add'' (deliver E2 s2))))
          else Some (deliver E2 s2)) = Some y2"
    show "E2 = E \<longrightarrow> co_id ob2 \<in> set (collision s2)"
    proof (intro impI, rule ccontr)
      assume E2: "E2 = E" and mem: "co_id ob2 \<notin> set (collision s2)"
      have held: "collision (deliver E2 s2) = collision s2"
        using E2 by (simp add: deliver_silent silent)
      with mem body have "wa E2 ob2 (rospy_sleep E2 1 (pub_publish E2 ob2
                (rospy_log DEBUG ''Waiting for object to add'' (deliver E2 s2)))) = Some y2"
        by (simp add: getKnownCollisionObjects_def)
      from IH [OF this] E2 held mem show False
        by simp
    qed
  qed
  with unknown show ?thesis by simp
qed simp

lemma move_piece_silent:
  "move_piece silent_env cu a b (ArmPlanner_init ()) = None"
proof -
  have silent: "fst (scene_feed silent_env w) = []" for w
    by (simp add: silent_env_def)
  obtain s1 where s1: "remove silent_env FIXED_FRAME ''table''
      (rospy_log INFO ''Updating table position'' (ArmPlanner_init ())) = Some s1" "collision s1 = []"
    by (simp add: remove_def Let_def wait_removed.simps getKnownCollisionObjects_def deliver_def silent
        ArmPlanner_init_def)
  have "addBox silent_env FIXED_FRAME ''table'' x1 x2 x3 x4 x5 x6 s1 = None" for x1 x2 x3 x4 x5 x6
    unfolding addBox_def Let_def
    by (rule wait_added_stuck) (simp_all add: silent s1)
  then show ?thesis
    by (simp add: move_piece_def s1 Let_def)
qed
section \<open>A capturing move\<close>

text \<open>
  The destination holds a piece and the source holds one. The first thing \<^verbatim>\<open>execute\<close>
  does is the relocation of the captured piece, from the state it was called in: if that
  sub-move never returns, neither does \<^verbatim>\<open>execute\<close>. If \<^verbatim>\<open>move_piece\<close> returns \<^verbatim>\<open>False\<close>,
  which it does only after a failed pickup, the call logs the error, sets \<^verbatim>\<open>success\<close> to
  \<^verbatim>\<open>False\<close>, tucks the arm and returns \<^verbatim>\<open>None\<close>, and nothing else happens: the state is
  the one the relocation left, with those three changes. The primary sub-move runs after
  a relocation that returned \<^verbatim>\<open>True\<close>, from the state that relocation left.
\<close>

lemma relocation_returning_False_aborts:
  assumes "toPosition board (take 2 mv) = (cf, rf)" and "toPosition board (drop 2 mv) = (ct, rt)"
    and "getPiece board cf rf = Some fr" and "getPiece board ct rt = Some to"
  shows
    "(move_piece E cu (pose to) (off_board_pose cu fr) s = None \<longrightarrow> execute E cu mv board s = None) \<and>
     (move_piece E cu (pose to) (off_board_pose cu fr) s = Some (False, s1) \<longrightarrow>
        execute E cu mv board s =
          Some (Inr None, snd (tuck E ((rospy_log ERROR ''Failed to move captured piece'' s1)\<lparr>success := False\<rparr>))) \<and>
        success (snd (tuck E ((rospy_log ERROR ''Failed to move captured piece'' s1)\<lparr>success := False\<rparr>))) = False) \<and>
     (move_piece E cu (pose to) (off_board_pose cu fr) s = Some (True, s1) \<and>
      move_piece E cu (pose fr) (getPose cu ct rt board (p_z (position (pose fr)))) s1 = Some (False, s2) \<longrightarrow>
        execute E cu mv board s =
          Some (Inr None, snd (tuck E ((rospy_log ERROR ''Failed to move my piece'' s2)\<lparr>success := False\<rparr>))))"
proof (intro conjI impI)
  assume "move_piece E cu (pose to) (off_board_pose cu fr) s = None"
  then show "execute E cu mv board s = None"
    using assms by (subst execute.simps) simp
next
  assume "move_piece E cu (pose to) (off_board_pose cu fr) s = Some (False, s1)"
  then show "execute E cu mv board s =
          Some (Inr None, snd (tuck E ((rospy_log ERROR ''Failed to move captured piece'' s1)\<lparr>success := False\<rparr>)))"
    using assms by (subst execute.simps) (simp add: abort_move_eq)
next
  show "success (snd (tuck E ((rospy_log ERROR ''Failed to move captured piece'' s1)\<lparr>success := False\<rparr>))) = False"
    by simp
next
  assume "move_piece E cu (pose to) (off_board_pose cu fr) s = Some (True, s1) \<and>
      move_piece E cu (pose fr) (getPose cu ct rt board (p_z (position (pose fr)))) s1 = Some (False, s2)"
  then show "execute E cu mv board s =
          Some (Inr None, snd (tuck E ((rospy_log ERROR ''Failed to move my piece'' s2)\<lparr>success := False\<rparr>)))"
    using assms by (subst execute.simps) (simp add: abort_move_eq)
qed

text \<open>
  On the bench, for the move e4d5: a relocation whose pickup goals are all rejected, a
  relocation that never returns, and a relocation that is carried out before a primary
  sub-move whose pickup goals are all rejected.
\<close>

lemma relocation_returning_False_aborts_on_bench:
  "getPiece sample_board 4 4 = Some (piece_at 4 4) \<and> getPiece sample_board 3 5 = Some (piece_at 3 5) \<and>
   map_option fst (move_piece (bench_env reject_all accept_all) sample_cu (pose (piece_at 3 5))
      (off_board_pose sample_cu (piece_at 4 4)) (ArmPlanner_init bench0)) = Some False \<and>
   map_option fst (execute (bench_env reject_all accept_all) sample_cu ''e4d5'' sample_board (ArmPlanner_init bench0))
     = Some (Inr None) \<and>
   map_option (\<lambda>r. success (snd r)) (execute (bench_env reject_all accept_all) sample_cu ''e4d5'' sample_board (ArmPlanner_init bench0))
     = Some False \<and>
   move_piece silent_env sample_cu (pose (piece_at 3 5)) (off_board_pose sample_cu (piece_at 4 4)) (ArmPlanner_init ()) = None \<and>
   execute silent_env sample_cu ''e4d5'' sample_board (ArmPlanner_init ()) = None \<and>
   map_option fst (move_piece (bench_env accept_first_pick accept_all) sample_cu (pose (piece_at 3 5))
      (off_board_pose sample_cu (piece_at 4 4)) (ArmPlanner_init bench0)) = Some True \<and>
   outcome (execute (bench_env accept_first_pick accept_all) sample_cu ''e4d5'' sample_board (ArmPlanner_init bench0))
     = Some (Inr None, False, [''Failed to move my piece''], 22, 1, 1)"
proof -
  let ?E = "bench_env reject_all accept_all"
  let ?reloc = "move_piece ?E sample_cu (pose (piece_at 3 5))
      (off_board_pose sample_cu (piece_at 4 4)) (ArmPlanner_init bench0)"
  have sq: "toPosition sample_board (take 2 ''e4d5'') = (4, 4)" "toPosition sample_board (drop 2 ''e4d5'') = (3, 5)"
    by (simp_all add: sample_board_def sample_toPosition_def)
  have pc: "getPiece sample_board 4 4 = Some (piece_at 4 4)" "getPiece sample_board 3 5 = Some (piece_at 3 5)"
    by (simp_all add: sample_board_def)
  have failed: "map_option fst ?reloc = Some False"
    by (simp add: run_defs)
  note inst = relocation_returning_False_aborts [OF sq pc, of ?E sample_cu "ArmPlanner_init bench0" "snd (the ?reloc)"]
  from inst Some_pair_the [OF failed]
  have "execute ?E sample_cu ''e4d5'' sample_board (ArmPlanner_init bench0) =
          Some (Inr None, snd (tuck ?E ((rospy_log ERROR ''Failed to move captured piece'' (snd (the ?reloc)))\<lparr>success := False\<rparr>)))"
    by blast
  then have first: "map_option fst (execute ?E sample_cu ''e4d5'' sample_board (ArmPlanner_init bench0)) = Some (Inr None)"
    "map_option (\<lambda>r. success (snd r)) (execute ?E sample_cu ''e4d5'' sample_board (ArmPlanner_init bench0)) = Some False"
    by simp_all
  note stuck = move_piece_silent [of sample_cu "pose (piece_at 3 5)" "off_board_pose sample_cu (piece_at 4 4)"]
  from relocation_returning_False_aborts [OF sq pc, of silent_env sample_cu "ArmPlanner_init ()"] stuck
  have second: "execute silent_env sample_cu ''e4d5'' sample_board (ArmPlanner_init ()) = None"
    by blast
  let ?F = "bench_env accept_first_pick accept_all"
  let ?reloc2 = "move_piece ?F sample_cu (pose (piece_at 3 5))
      (off_board_pose sample_cu (piece_at 4 4)) (ArmPlanner_init bench0)"
  let ?prim = "move_piece ?F sample_cu (pose (piece_at 4 4))
      (getPose sample_cu 3 5 sample_board (p_z (position (pose (piece_at 4 4))))) (snd (the ?reloc2))"
  have moved: "map_option fst ?reloc2 = Some True"
    by (simp add: run_defs)
  have stopped: "map_option fst ?prim = Some False"
    by (simp add: run_defs)
  have report: "(let s = snd (tuck ?F ((rospy_log ERROR ''Failed to move my piece'' (snd (the ?prim)))\<lparr>success := False\<rparr>))
      in (map snd (filter (\<lambda>l. fst l = ERROR) (rosout s)),
        length (picks (world s)), length (places (world s)), length (motions (world s))))
      = ([''Failed to move my piece''], 22, 1, 1)"
    by (simp add: run_defs)
  from relocation_returning_False_aborts [OF sq pc, of ?F sample_cu "ArmPlanner_init bench0" "snd (the ?reloc2)" "snd (the ?prim)"]
    Some_pair_the [OF moved] Some_pair_the [OF stopped]
  have "execute ?F sample_cu ''e4d5'' sample_board (ArmPlanner_init bench0) =
          Some (Inr None, snd (tuck ?F ((rospy_log ERROR ''Failed to move my piece'' (snd (the ?prim)))\<lparr>success := False\<rparr>)))"
    by blast
  then have third: "outcome (execute ?F sample_cu ''e4d5'' sample_board (ArmPlanner_init bench0))
     = Some (Inr None, False, [''Failed to move my piece''], 22, 1, 1)"
    using report by (simp add: outcome_def Let_def)
  from pc failed first stuck second moved third show ?thesis
    by blast
qed

text \<open>
  C4 fails on the code. On the bench the pickup server accepts every goal and the place
  server rejects every goal, and the move e4d5 captures the pawn on d5. The relocation of
  the captured pawn is attempted first, and it fails: the pawn is picked up and all 21
  place candidates are rejected. \<^verbatim>\<open>execute\<close> goes on all the same. It sends a second
  pickup goal, for the pawn on e4, and 21 more place goals; it returns the pose of d5,
  leaves \<^verbatim>\<open>success\<close> at \<^verbatim>\<open>True\<close> and logs no error. The one motion goal is the tuck
  at the end of the move. \<^verbatim>\<open>move_piece\<close> drops the result of \<^verbatim>\<open>place\<close>, as in C1.
\<close>

theorem capture_place_failure_goes_unreported:
  "outcome (execute (bench_env accept_all reject_all) sample_cu ''e4d5'' sample_board (ArmPlanner_init bench0))
     = Some (Inr (Some (getPose sample_cu 3 5 sample_board 0)), True, [], 2, 42, 1) \<and>
   picked_at (execute (bench_env accept_all reject_all) sample_cu ''e4d5'' sample_board (ArmPlanner_init bench0))
     = Some [(position (pose (piece_at 3 5)))\<lparr>p_z := 0.03\<rparr>, (position (pose (piece_at 4 4)))\<lparr>p_z := 0.03\<rparr>] \<and>
   motions_sent (execute (bench_env accept_all reject_all) sample_cu ''e4d5'' sample_board (ArmPlanner_init bench0))
     = Some [\<lparr>goal_constraints =
               [[\<lparr>joint_name = ''arm_lift_joint'', jc_position = 0,
                  tolerance_above = 0.01, tolerance_below = 0.01, weight = 1\<rparr>,
                 \<lparr>joint_name = ''arm_shoulder_pan_joint'', jc_position = - 1.57,
                  tolerance_above = 0.01, tolerance_below = 0.01, weight = 1\<rparr>,
                 \<lparr>joint_name = ''arm_upperarm_roll_joint'', jc_position = 0,
                  tolerance_above = 0.01, tolerance_below = 0.01, weight = 1\<rparr>,
                 \<lparr>joint_name = ''arm_shoulder_lift_joint'', jc_position = - 1.7,
                  tolerance_above = 0.01, tolerance_below = 0.01, weight = 1\<rparr>,
                 \<lparr>joint_name = ''arm_elbow_flex_joint'', jc_position = 1.7,
                  tolerance_above = 0.01, tolerance_below = 0.01, weight = 1\<rparr>,
                 \<lparr>joint_name = ''arm_wrist_flex_joint'', jc_position = 1.57,
                  tolerance_above = 0.01, tolerance_below = 0.01, weight = 1\<rparr>,
                 \<lparr>joint_name = ''arm_wrist_roll_joint'', jc_position = - 0.066472500808377785,
                  tolerance_above = 0.01, tolerance_below = 0.01, weight = 1\<rparr>]],
             mg_group_name = ''Arm'', num_planning_attempts = 1, mg_allowed_planning_time = 15,
             mg_plan_only = False, look_around = False, replan = False\<rparr>]"
proof -
  have "outcome (execute (bench_env accept_all reject_all) sample_cu ''e4d5'' sample_board (ArmPlanner_init bench0))
     = Some (Inr (Some (getPose sample_cu 3 5 sample_board 0)), True, [], 2, 42, 1)"
    by (subst execute.simps) (simp add: run_defs)
  moreover
  have "picked_at (execute (bench_env accept_all reject_all) sample_cu ''e4d5'' sample_board (ArmPlanner_init bench0))
     = Some [(position (pose (piece_at 3 5)))\<lparr>p_z := 0.03\<rparr>, (position (pose (piece_at 4 4)))\<lparr>p_z := 0.03\<rparr>]"
    by (subst execute.simps) (simp add: run_defs picked_at_def pickup_goal_def set_orientation_def)
  moreover
  have "motions_sent (execute (bench_env accept_all reject_all) sample_cu ''e4d5'' sample_board (ArmPlanner_init bench0))
     = Some [\<lparr>goal_constraints =
               [[\<lparr>joint_name = ''arm_lift_joint'', jc_position = 0,
                  tolerance_above = 0.01, tolerance_below = 0.01, weight = 1\<rparr>,
                 \<lparr>joint_name = ''arm_shoulder_pan_joint'', jc_position = - 1.57,
                  tolerance_above = 0.01, tolerance_below = 0.01, weight = 1\<rparr>,
                 \<lparr>joint_name = ''arm_upperarm_roll_joint'', jc_position = 0,
                  tolerance_above = 0.01, tolerance_below = 0.01, weight = 1\<rparr>,
                 \<lparr>joint_name = ''arm_shoulder_lift_joint'', jc_position = - 1.7,
                  tolerance_above = 0.01, tolerance_below = 0.01, weight = 1\<rparr>,
                 \<lparr>joint_name = ''arm_elbow_flex_joint'', jc_position = 1.7,
                  tolerance_above = 0.01, tolerance_below = 0.01, weight = 1\<rparr>,
                 \<lparr>joint_name = ''arm_wrist_flex_joint'', jc_position = 1.57,
                  tolerance_above = 0.01, tolerance_below = 0.01, weight = 1\<rparr>,
                 \<lparr>joint_name = ''arm_wrist_roll_joint'', jc_position = - 0.066472500808377785,
                  tolerance_above = 0.01, tolerance_below = 0.01, weight = 1\<rparr>]],
             mg_group_name = ''Arm'', num_planning_attempts = 1, mg_allowed_planning_time = 15,
             mg_plan_only = False, look_around = False, replan = False\<rparr>]"
    by (subst execute.simps) (simp add: run_defs motions_sent_def ArmPlanner_group_def PLAN_ONLY_def)
  ultimately show ?thesis
    by blast
qed

text \<open>
  C1 fails on the code. On the bench the pickup server accepts every goal and the place
  server rejects every goal. The move e4e5 captures nothing. All 21 place candidates
  are sent and rejected, and \<^verbatim>\<open>execute\<close> still returns the pose of e5, leaves
  \<^verbatim>\<open>success\<close> at \<^verbatim>\<open>True\<close> and logs no error: \<^verbatim>\<open>move_piece\<close> drops the result of
  \<^verbatim>\<open>place\<close>.
\<close>

theorem place_failure_goes_unreported:
  "outcome (execute (bench_env accept_all reject_all) sample_cu ''e4e5'' sample_board (ArmPlanner_init bench0))
     = Some (Inr (Some (getPose sample_cu 4 5 sample_board 0)), True, [], 1, 21, 1)"
  by (subst execute.simps) (simp add: run_defs)

text \<open>
  C3, as the code has it. The move has a castling extra, and the nested \<^verbatim>\<open>execute\<close> of
  the extra returns \<^verbatim>\<open>None\<close>. Once the primary sub-move has returned \<^verbatim>\<open>True\<close> (after a
  relocation that returned \<^verbatim>\<open>True\<close>, if the move captures), the call logs the error,
  tucks the arm and returns the destination pose of the primary move. It does not
  assign \<^verbatim>\<open>success\<close> itself, but the nested call has set it to \<^verbatim>\<open>False\<close> on the same
  object, and that is what the flag reads afterwards.
\<close>

theorem castling_extra_failure_is_logged:
  assumes "toPosition board (take 2 mv) = (cf, rf)" and "toPosition board (drop 2 mv) = (ct, rt)"
    and "getPiece board cf rf = Some fr"
    and "castling_extras cu mv = Some extra_move"
    and "(getPiece board ct rt = None \<and> s1 = s) \<or>
         (\<exists>to. getPiece board ct rt = Some to \<and>
            move_piece E cu (pose to) (off_board_pose cu fr) s = Some (True, s1))"
    and "move_piece E cu (pose fr) (getPose cu ct rt board (p_z (position (pose fr)))) s1 = Some (True, s2)"
    and "execute E cu extra_move board s2 = Some (Inr None, s3)"
  shows
    "execute E cu mv board s =
       Some (Inr (Some (getPose cu ct rt board (p_z (position (pose fr))))),
             snd (tuck E (rospy_log ERROR ''Failed to carry out castling extra'' s3))) \<and>
     success (snd (tuck E (rospy_log ERROR ''Failed to carry out castling extra'' s3))) = False \<and>
     rosout (snd (tuck E (rospy_log ERROR ''Failed to carry out castling extra'' s3)))
       = rosout s3 @ [(ERROR, ''Failed to carry out castling extra'')]"
proof (intro conjI)
  from assms(5) show "execute E cu mv board s =
       Some (Inr (Some (getPose cu ct rt board (p_z (position (pose fr))))),
             snd (tuck E (rospy_log ERROR ''Failed to carry out castling extra'' s3)))"
  proof (elim disjE conjE exE)
    assume "getPiece board ct rt = None" "s1 = s"
    then show ?thesis
      using assms(1-4,6,7) by (subst execute.simps) simp
  next
    fix to
    assume "getPiece board ct rt = Some to"
      "move_piece E cu (pose to) (off_board_pose cu fr) s = Some (True, s1)"
    then show ?thesis
      using assms(1-4,6,7) by (subst execute.simps) simp
  qed
next
  show "success (snd (tuck E (rospy_log ERROR ''Failed to carry out castling extra'' s3))) = False"
    using execute_None_sets_flag [OF assms(7)] by simp
next
  show "rosout (snd (tuck E (rospy_log ERROR ''Failed to carry out castling extra'' s3)))
       = rosout s3 @ [(ERROR, ''Failed to carry out castling extra'')]"
    by simp
qed

theorem castling_extra_failure_is_logged_witness:
  "getPiece sample_board 4 1 = Some (piece_at 4 1) \<and> getPiece sample_board 6 1 = None \<and>
   castling_extras sample_cu ''e1g1'' = Some ''h1f1'' \<and>
   map_option fst (move_piece (bench_env accept_first_pick accept_all) sample_cu
      (pose (piece_at 4 1)) (getPose sample_cu 6 1 sample_board 0) (ArmPlanner_init bench0)) = Some True \<and>
   map_option fst (execute (bench_env accept_first_pick accept_all) sample_cu ''e1g1''
      sample_board (ArmPlanner_init bench0)) = Some (Inr (Some (getPose sample_cu 6 1 sample_board 0))) \<and>
   map_option (\<lambda>r. success (snd r)) (execute (bench_env accept_first_pick accept_all) sample_cu ''e1g1''
      sample_board (ArmPlanner_init bench0)) = Some False"
proof -
  let ?F = "bench_env accept_first_pick accept_all"
  let ?prim = "move_piece ?F sample_cu (pose (piece_at 4 1))
      (getPose sample_cu 6 1 sample_board (p_z (position (pose (piece_at 4 1))))) (ArmPlanner_init bench0)"
  let ?nested = "execute ?F sample_cu ''h1f1'' sample_board (snd (the ?prim))"
  have sq: "toPosition sample_board (take 2 ''e1g1'') = (4, 1)" "toPosition sample_board (drop 2 ''e1g1'') = (6, 1)"
    by (simp_all add: sample_board_def sample_toPosition_def)
  have pc: "getPiece sample_board 4 1 = Some (piece_at 4 1)" "getPiece sample_board 6 1 = None"
    by (simp_all add: sample_board_def)
  have ex: "castling_extras sample_cu ''e1g1'' = Some ''h1f1''"
    by (simp add: sample_cu_def)
  have z: "p_z (position (pose (piece_at 4 1))) = 0"
    by (simp add: piece_at_def)
  have moved: "map_option fst ?prim = Some True"
    by (simp add: run_defs)
  have failed: "map_option fst ?nested = Some (Inr None)"
    by (subst execute.simps) (simp add: run_defs)
  have cap: "(getPiece sample_board 6 1 = None \<and> ArmPlanner_init bench0 = ArmPlanner_init bench0) \<or>
         (\<exists>to. getPiece sample_board 6 1 = Some to \<and>
            move_piece ?F sample_cu (pose to) (off_board_pose sample_cu (piece_at 4 1)) (ArmPlanner_init bench0)
              = Some (True, ArmPlanner_init bench0))"
    using pc by simp
  note inst = castling_extra_failure_is_logged [OF sq pc(1) ex cap Some_pair_the [OF moved] Some_pair_the [OF failed]]
  from inst have "map_option fst (execute ?F sample_cu ''e1g1'' sample_board (ArmPlanner_init bench0))
      = Some (Inr (Some (getPose sample_cu 6 1 sample_board 0)))"
    "map_option (\<lambda>r. success (snd r)) (execute ?F sample_cu ''e1g1'' sample_board (ArmPlanner_init bench0)) = Some False"
    by (simp_all add: z)
  with pc ex moved show ?thesis
    by (simp add: z)
qed

text \<open>
  C3 as stated fails: on the bench only the first pickup goal is accepted, so in e1g1 the
  king is moved and the rook is not. The call returns the pose of g1, and \<^verbatim>\<open>success\<close>
  is \<^verbatim>\<open>False\<close> afterwards.
\<close>

theorem castling_extra_failure_sets_flag:
  "outcome (execute (bench_env accept_first_pick accept_all) sample_cu ''e1g1'' sample_board (ArmPlanner_init bench0))
     = Some (Inr (Some (getPose sample_cu 6 1 sample_board 0)), False,
             [''Failed to move my piece'', ''Failed to carry out castling extra''], 22, 1, 2)"
  by (subst execute.simps, subst execute.simps) (simp add: run_defs)

end
